theory Spec2Isabelle
  imports Complex_Main
begin

section \<open>Data model\<close>

text \<open>
  The records follow the shapes used by the TypeScript sources.  A JavaScript number that
  holds a score is given by its exact value, a rational; the rounding of the arithmetic on
  such numbers is treated in the analysis view, and the sign of zero is not modelled.  The
  Chinese operator-facing strings of the sources are represented by constructors of small
  datatypes, each documented with its meaning.
\<close>

datatype ModelProviderType = openai | google | zhipu

record AppConfig =
  provider :: ModelProviderType
  endpoint :: string
  modelName :: string
  apiKey :: string

datatype GradingStrategy = flash | pro | reasoning

record BreakdownItem =
  b_label :: string
  b_score :: rat
  b_max :: rat
  b_comment :: "string option"
  b_isNegative :: "bool option"
  b_relevantArea :: "rat list option"

record StudentResult =
  id_str :: string
  name :: string
  className :: "string option"
  score :: rat
  maxScore :: rat
  comment :: string
  breakdown :: "BreakdownItem list"

record PageContext =
  platform :: string
  studentName :: string
  answerImageBase64 :: string
  timestamp :: "nat option"

section \<open>Persisted state (localStorage)\<close>

text \<open>
  An entry of localStorage is a text; the sources read it with \<open>JSON.parse\<close> and write it
  with \<open>JSON.stringify\<close>.  The model keeps, per key, what reading the entry yields:
  \<open>Absent\<close> (\<open>getItem\<close> returns null), \<open>Text_empty\<close> (the empty string, falsy),
  \<open>Text_invalid\<close> (\<open>JSON.parse\<close> throws), \<open>Other_json\<close> (valid JSON of another
  shape than the TypeScript type of the key) and \<open>Value_of v\<close> (the text
  \<open>JSON.stringify v\<close>, which \<open>JSON.parse\<close> reads back as \<open>v\<close>).
\<close>

datatype 'a item = Absent | Text_empty | Text_invalid | Other_json | Value_of 'a

record localStorage =
  app_model_config :: "AppConfig item"
  grading_history :: "StudentResult list item"

text \<open>The process environment; \<open>quota_exceeded\<close> makes \<open>localStorage.setItem\<close> throw.\<close>

record env =
  env_API_KEY :: "string option"
  quota_exceeded :: bool

datatype js_error =
    SyntaxError      \<comment> \<open>\<open>JSON.parse\<close> on a malformed text\<close>
  | TypeError        \<comment> \<open>a value of the wrong shape is used\<close>
  | QuotaExceeded    \<comment> \<open>\<open>localStorage.setItem\<close> on a full store\<close>
  | NoApiKey         \<comment> \<open>the error thrown when no Google client can be built\<close>

section \<open>Provider gateway: configuration (services/geminiService.ts)\<close>

definition DEFAULT_CONFIG :: AppConfig where
  "DEFAULT_CONFIG =
     \<lparr>provider = google, endpoint = '''', modelName = ''gemini-2.5-flash'', apiKey = ''''\<rparr>"

text \<open>\<open>a || b\<close> on an optional string and a string: the empty string is falsy.\<close>

definition or_else :: "string option \<Rightarrow> string \<Rightarrow> string" where
  "or_else a b = (case a of None \<Rightarrow> b | Some x \<Rightarrow> if x = [] then b else x)"

text \<open>
  \<open>getAppConfig\<close> returns whatever \<open>JSON.parse\<close> yields, unchecked.  A stored value that
  is no configuration record has no counterpart in \<open>AppConfig\<close>; the model marks this
  case with \<open>TypeError\<close>.
\<close>

definition getAppConfig :: "env \<Rightarrow> localStorage \<Rightarrow> js_error + AppConfig" where
  "getAppConfig e st =
     (case app_model_config st of
        Value_of c \<Rightarrow> Inr c
      | Text_invalid \<Rightarrow> Inl SyntaxError
      | Other_json \<Rightarrow> Inl TypeError
      | _ \<Rightarrow> Inr (DEFAULT_CONFIG\<lparr>apiKey := or_else (env_API_KEY e) ''''\<rparr>))"

definition saveAppConfig :: "env \<Rightarrow> AppConfig \<Rightarrow> localStorage \<Rightarrow> js_error + localStorage" where
  "saveAppConfig e config st =
     (if quota_exceeded e then Inl QuotaExceeded
      else Inr (st\<lparr>app_model_config := Value_of config\<rparr>))"

text \<open>\<open>getGoogleClient\<close>: the key the client is built with, or \<open>None\<close> (null).\<close>

definition getGoogleClient :: "env \<Rightarrow> string \<Rightarrow> string option" where
  "getGoogleClient e apiKeyOverride =
     (let k = (if apiKeyOverride \<noteq> [] then apiKeyOverride else or_else (env_API_KEY e) [])
      in if k = [] then None else Some k)"

definition getModelName :: "GradingStrategy \<Rightarrow> AppConfig \<Rightarrow> string" where
  "getModelName strategy config =
     (if provider config \<noteq> google then modelName config
      else (case strategy of
              reasoning \<Rightarrow> ''gemini-3-pro-preview''
            | pro \<Rightarrow> ''gemini-3-pro-preview''
            | flash \<Rightarrow> ''gemini-2.5-flash''))"

section \<open>Provider gateway: the scoring request\<close>

text \<open>
  \<open>assessStudentAnswer\<close> is asynchronous; the model gives the one outbound request it
  issues (or the error it throws before issuing any).  The prompt texts are built from the
  rubric, which the request records.
\<close>

record gemini_request =
  g_apiKey :: string
  g_model :: string
  g_thinkingBudget :: "nat option"
  g_rubric :: string
  g_image :: string

record chat_request =
  c_endpoint :: string
  c_bearer :: string
  c_model :: string
  c_json_mode :: bool
  c_rubric :: string
  c_image :: string

datatype request = GenerateContent gemini_request | ChatCompletion chat_request

definition thinkingConfig :: "GradingStrategy \<Rightarrow> nat option" where
  "thinkingConfig strategy =
     (if strategy = reasoning then Some 16384
      else if strategy = pro then Some 2048
      else None)"

definition callOpenAICompatible :: "AppConfig \<Rightarrow> string \<Rightarrow> string \<Rightarrow> bool \<Rightarrow> request" where
  "callOpenAICompatible config rubricText imageBase64 jsonMode =
     ChatCompletion \<lparr>c_endpoint = endpoint config, c_bearer = apiKey config,
       c_model = modelName config, c_json_mode = jsonMode,
       c_rubric = rubricText, c_image = imageBase64\<rparr>"

definition assessStudentAnswer ::
  "env \<Rightarrow> localStorage \<Rightarrow> string \<Rightarrow> string \<Rightarrow> GradingStrategy \<Rightarrow> js_error + request" where
  "assessStudentAnswer e st studentImageBase64 rubricText strategy =
     (case getAppConfig e st of
        Inl err \<Rightarrow> Inl err
      | Inr config \<Rightarrow>
          if provider config = google then
            (case getGoogleClient e (apiKey config) of
               None \<Rightarrow> Inl NoApiKey
             | Some k \<Rightarrow>
                 Inr (GenerateContent \<lparr>g_apiKey = k, g_model = getModelName strategy config,
                        g_thinkingBudget = thinkingConfig strategy,
                        g_rubric = rubricText, g_image = studentImageBase64\<rparr>))
          else Inr (callOpenAICompatible config rubricText studentImageBase64 True))"

text \<open>The model identifier and the reasoning budget a request carries.\<close>

fun request_model :: "request \<Rightarrow> string" where
  "request_model (GenerateContent g) = g_model g"
| "request_model (ChatCompletion c) = c_model c"

fun request_budget :: "request \<Rightarrow> nat option" where
  "request_budget (GenerateContent g) = g_thinkingBudget g"
| "request_budget (ChatCompletion c) = None"

section \<open>History persistence (components/GradingView.tsx, recordHistory)\<close>

text \<open>
  \<open>raw ? JSON.parse(raw) : []\<close> followed by \<open>list.unshift\<close>: a missing or empty entry
  reads as the empty list, a malformed text throws in \<open>JSON.parse\<close>, and a parsed value
  that is no array throws at \<open>unshift\<close>.
\<close>

definition read_history :: "localStorage \<Rightarrow> js_error + StudentResult list" where
  "read_history st =
     (case grading_history st of
        Absent \<Rightarrow> Inr []
      | Text_empty \<Rightarrow> Inr []
      | Text_invalid \<Rightarrow> Inl SyntaxError
      | Other_json \<Rightarrow> Inl TypeError
      | Value_of list \<Rightarrow> Inr list)"

text \<open>
  \<open>recordHistory\<close> reads \<open>result\<close> from the render it was created in, so the model
  takes it as an argument; \<open>now\<close> is \<open>Date.now().toString()\<close>.  Every exception inside the
  \<open>try\<close> block is caught and leaves the store as it was.
\<close>

definition recordHistory ::
  "env \<Rightarrow> string \<Rightarrow> StudentResult option \<Rightarrow> rat \<Rightarrow> string \<Rightarrow> localStorage \<Rightarrow> localStorage" where
  "recordHistory e now result sc student_name st =
     (case result of
        None \<Rightarrow> st
      | Some r \<Rightarrow>
          (let historyItem = r\<lparr>score := sc, name := student_name, id_str := now\<rparr> in
           case read_history st of
             Inl err \<Rightarrow> st
           | Inr list \<Rightarrow>
               (let list1 = historyItem # list;
                    list2 = (if length list1 > 500 then butlast list1 else list1)
                in if quota_exceeded e then st
                   else st\<lparr>grading_history := Value_of list2\<rparr>)))"

section \<open>Analysis view (calculateStats)\<close>

text \<open>
  This section reads the arithmetic of \<open>calculateStats\<close> as exact arithmetic on rationals,
  which is what the example scenario with its scores 8, 5 and 9 out of 10 is computed in;
  the section after it gives the same functions over an arithmetic with rounding.
\<close>

text \<open>
  The ratio \<open>s.score / s.maxScore\<close> may divide by zero, which in JavaScript yields an
  infinity or NaN rather than a failure; the three comparisons of the ratio are the only
  use of it.
\<close>

datatype js_number = Finite rat | PosInfinity | NegInfinity | NaN

definition js_divide :: "rat \<Rightarrow> rat \<Rightarrow> js_number" where
  "js_divide a b =
     (if b \<noteq> 0 then Finite (a / b)
      else if a > 0 then PosInfinity
      else if a < 0 then NegInfinity
      else NaN)"

fun js_less :: "js_number \<Rightarrow> rat \<Rightarrow> bool" where
  "js_less (Finite x) q = (x < q)"
| "js_less NegInfinity q = True"
| "js_less PosInfinity q = False"
| "js_less NaN q = False"

text \<open>
  The four distribution names of the source are Chinese labels: \<open>Needs_work\<close> (below 60
  percent), \<open>Passed\<close> (60 to 75), \<open>Good\<close> (75 to 90) and \<open>Excellent\<close> (90 and above).
\<close>

datatype bucket_name = Needs_work | Passed | Good | Excellent

record bucket =
  d_name :: bucket_name
  d_value :: nat
  d_color :: string

text \<open>The statistics, over the type \<open>'n\<close> of the numbers they hold.\<close>

record 'n stats =
  avgScore :: 'n
  passRate :: 'n
  difficulty :: 'n
  count :: nat
  distribution :: "bucket list"

definition bucket_index :: "StudentResult \<Rightarrow> nat" where
  "bucket_index s =
     (let ratio = js_divide (score s) (maxScore s) in
      if js_less ratio 0.6 then 0
      else if js_less ratio 0.75 then 1
      else if js_less ratio 0.9 then 2
      else 3)"

definition count_buckets :: "StudentResult list \<Rightarrow> nat list" where
  "count_buckets history =
     fold (\<lambda>s buckets. buckets[bucket_index s := Suc (buckets ! bucket_index s)])
       history [0, 0, 0, 0]"

text \<open>\<open>history[0].maxScore || 100\<close>: zero is falsy.\<close>

definition full_marks :: "StudentResult \<Rightarrow> rat" where
  "full_marks first = (if maxScore first = 0 then 100 else maxScore first)"

definition passThreshold :: "StudentResult \<Rightarrow> rat" where
  "passThreshold first = full_marks first * 0.6"

definition stats_of :: "StudentResult \<Rightarrow> StudentResult list \<Rightarrow> rat stats" where
  "stats_of first history =
     (let cnt = length history;
          totalScore = fold (\<lambda>curr acc. acc + score curr) history 0;
          avg = totalScore / of_nat cnt;
          passCount = length (filter (\<lambda>s. score s \<ge> passThreshold first) history);
          rate = (of_nat passCount / of_nat cnt) * 100;
          buckets = count_buckets history
      in \<lparr>avgScore = avg, passRate = rate, difficulty = avg / full_marks first, count = cnt,
          distribution =
            [\<lparr>d_name = Needs_work, d_value = buckets ! 0, d_color = ''#ef4444''\<rparr>,
             \<lparr>d_name = Passed, d_value = buckets ! 1, d_color = ''#f97316''\<rparr>,
             \<lparr>d_name = Good, d_value = buckets ! 2, d_color = ''#3b82f6''\<rparr>,
             \<lparr>d_name = Excellent, d_value = buckets ! 3, d_color = ''#22c55e''\<rparr>]\<rparr>)"

text \<open>
  \<open>calculateStats\<close>: \<open>None\<close> is \<open>setStats(null)\<close>; a malformed stored text makes
  \<open>JSON.parse\<close> throw.
\<close>

definition calculateStats :: "localStorage \<Rightarrow> js_error + rat stats option" where
  "calculateStats st =
     (case grading_history st of
        Absent \<Rightarrow> Inr None
      | Text_empty \<Rightarrow> Inr None
      | Text_invalid \<Rightarrow> Inl SyntaxError
      | Other_json \<Rightarrow> Inr None
      | Value_of history \<Rightarrow>
          (case history of
             [] \<Rightarrow> Inr None
           | first # rest \<Rightarrow> Inr (Some (stats_of first history))))"

text \<open>
  \<open>Number.prototype.toFixed\<close>, as the value of the decimal it prints: the nearest
  multiple of \<open>10^-digits\<close> to the exact value of the number, the larger one in magnitude
  on a tie.  The argument is the exact value: 0.35 as a double lies below 7/20, and is
  printed to one digit as 0.3.
\<close>

definition toFixed :: "nat \<Rightarrow> rat \<Rightarrow> rat" where
  "toFixed digits x =
     (if x < 0 then - (of_int \<lfloor>(- x) * 10 ^ digits + 1 / 2\<rfloor> / 10 ^ digits)
      else of_int \<lfloor>x * 10 ^ digits + 1 / 2\<rfloor> / 10 ^ digits)"

text \<open>A history entry that carries only a score and full marks, as test data gives them.\<close>

definition entry :: "rat \<Rightarrow> rat \<Rightarrow> StudentResult" where
  "entry sc mx = \<lparr>id_str = [], name = [], className = None, score = sc, maxScore = mx,
     comment = [], breakdown = []\<rparr>"

text \<open>A store that holds the history \<open>h\<close> and nothing else.\<close>

definition history_store :: "StudentResult list \<Rightarrow> localStorage" where
  "history_store h = \<lparr>app_model_config = Absent, grading_history = Value_of h\<rparr>"

text \<open>The history of the example scenario: scores 8, 5 and 9 out of 10.\<close>

definition example_history :: "StudentResult list" where
  "example_history = [entry 8 10, entry 5 10, entry 9 10]"

section \<open>Analysis view over the arithmetic of JavaScript numbers\<close>

text \<open>
  A JavaScript number is an IEEE 754 double: every operation and every decimal literal is
  rounded, so \<open>8.1 / 9\<close> is below the literal \<open>0.9\<close> and \<open>3 * 0.6\<close> is below \<open>1.8\<close>.
  The functions of the analysis are therefore given once more over an arbitrary
  arithmetic \<open>A\<close>: its addition, multiplication and division, and the value \<open>num_lit A q\<close>
  of the literal that is written \<open>q\<close>.  The scores of a stored entry are the exact values
  of the doubles that were parsed.  Comparisons of numbers are exact, and every comparison
  with NaN is false.
\<close>

record arith =
  num_add :: "js_number \<Rightarrow> js_number \<Rightarrow> js_number"
  num_mul :: "js_number \<Rightarrow> js_number \<Rightarrow> js_number"
  num_div :: "js_number \<Rightarrow> js_number \<Rightarrow> js_number"
  num_lit :: "rat \<Rightarrow> js_number"

fun num_lt :: "js_number \<Rightarrow> js_number \<Rightarrow> bool" where
  "num_lt (Finite x) (Finite y) = (x < y)"
| "num_lt NaN b = False"
| "num_lt a NaN = False"
| "num_lt PosInfinity b = False"
| "num_lt a PosInfinity = True"
| "num_lt NegInfinity NegInfinity = False"
| "num_lt NegInfinity (Finite y) = True"
| "num_lt (Finite x) NegInfinity = False"

fun num_ge :: "js_number \<Rightarrow> js_number \<Rightarrow> bool" where
  "num_ge (Finite x) (Finite y) = (x \<ge> y)"
| "num_ge NaN b = False"
| "num_ge a NaN = False"
| "num_ge PosInfinity b = True"
| "num_ge a NegInfinity = True"
| "num_ge NegInfinity b = False"
| "num_ge (Finite x) PosInfinity = False"

definition bucket_in :: "arith \<Rightarrow> StudentResult \<Rightarrow> nat" where
  "bucket_in A s =
     (let ratio = num_div A (Finite (score s)) (Finite (maxScore s)) in
      if num_lt ratio (num_lit A 0.6) then 0
      else if num_lt ratio (num_lit A 0.75) then 1
      else if num_lt ratio (num_lit A 0.9) then 2
      else 3)"

definition count_buckets_in :: "arith \<Rightarrow> StudentResult list \<Rightarrow> nat list" where
  "count_buckets_in A history =
     fold (\<lambda>s buckets. buckets[bucket_in A s := Suc (buckets ! bucket_in A s)])
       history [0, 0, 0, 0]"

definition full_marks_in :: "arith \<Rightarrow> StudentResult \<Rightarrow> js_number" where
  "full_marks_in A first =
     (if maxScore first = 0 then num_lit A 100 else Finite (maxScore first))"

definition passThreshold_in :: "arith \<Rightarrow> StudentResult \<Rightarrow> js_number" where
  "passThreshold_in A first = num_mul A (full_marks_in A first) (num_lit A 0.6)"

definition stats_in :: "arith \<Rightarrow> StudentResult \<Rightarrow> StudentResult list \<Rightarrow> js_number stats" where
  "stats_in A first history =
     (let cnt = length history;
          totalScore = fold (\<lambda>curr acc. num_add A acc (Finite (score curr))) history
                         (num_lit A 0);
          avg = num_div A totalScore (Finite (of_nat cnt));
          passCount = length (filter (\<lambda>s. num_ge (Finite (score s)) (passThreshold_in A first))
                                history);
          rate = num_mul A (num_div A (Finite (of_nat passCount)) (Finite (of_nat cnt)))
                   (num_lit A 100);
          buckets = count_buckets_in A history
      in \<lparr>avgScore = avg, passRate = rate, difficulty = num_div A avg (full_marks_in A first),
          count = cnt,
          distribution =
            [\<lparr>d_name = Needs_work, d_value = buckets ! 0, d_color = ''#ef4444''\<rparr>,
             \<lparr>d_name = Passed, d_value = buckets ! 1, d_color = ''#f97316''\<rparr>,
             \<lparr>d_name = Good, d_value = buckets ! 2, d_color = ''#3b82f6''\<rparr>,
             \<lparr>d_name = Excellent, d_value = buckets ! 3, d_color = ''#22c55e''\<rparr>]\<rparr>)"

definition calculateStats_in :: "arith \<Rightarrow> localStorage \<Rightarrow> js_error + js_number stats option" where
  "calculateStats_in A st =
     (case grading_history st of
        Absent \<Rightarrow> Inr None
      | Text_empty \<Rightarrow> Inr None
      | Text_invalid \<Rightarrow> Inl SyntaxError
      | Other_json \<Rightarrow> Inr None
      | Value_of history \<Rightarrow>
          (case history of
             [] \<Rightarrow> Inr None
           | first # rest \<Rightarrow> Inr (Some (stats_in A first history))))"

subsection \<open>The arithmetic of a rounding\<close>

text \<open>
  The arithmetic in which every finite result is rounded by \<open>rnd\<close>.  Infinities and NaN
  combine as in IEEE 754; the sign of zero is not modelled, so a division by zero takes
  its sign from the dividend alone.
\<close>

definition sign_of :: "js_number \<Rightarrow> rat" where
  "sign_of a = (case a of Finite x \<Rightarrow> sgn x | PosInfinity \<Rightarrow> 1 | NegInfinity \<Rightarrow> - 1 | NaN \<Rightarrow> 0)"

definition inf_of_sign :: "rat \<Rightarrow> js_number" where
  "inf_of_sign sg = (if sg > 0 then PosInfinity else if sg < 0 then NegInfinity else NaN)"

fun rounded_add :: "(rat \<Rightarrow> rat) \<Rightarrow> js_number \<Rightarrow> js_number \<Rightarrow> js_number" where
  "rounded_add rnd (Finite x) (Finite y) = Finite (rnd (x + y))"
| "rounded_add rnd NaN b = NaN"
| "rounded_add rnd a NaN = NaN"
| "rounded_add rnd PosInfinity NegInfinity = NaN"
| "rounded_add rnd NegInfinity PosInfinity = NaN"
| "rounded_add rnd PosInfinity b = PosInfinity"
| "rounded_add rnd a PosInfinity = PosInfinity"
| "rounded_add rnd NegInfinity b = NegInfinity"
| "rounded_add rnd a NegInfinity = NegInfinity"

fun rounded_mul :: "(rat \<Rightarrow> rat) \<Rightarrow> js_number \<Rightarrow> js_number \<Rightarrow> js_number" where
  "rounded_mul rnd (Finite x) (Finite y) = Finite (rnd (x * y))"
| "rounded_mul rnd NaN b = NaN"
| "rounded_mul rnd a NaN = NaN"
| "rounded_mul rnd a b = inf_of_sign (sign_of a * sign_of b)"

fun rounded_div :: "(rat \<Rightarrow> rat) \<Rightarrow> js_number \<Rightarrow> js_number \<Rightarrow> js_number" where
  "rounded_div rnd (Finite x) (Finite y) =
     (if y \<noteq> 0 then Finite (rnd (x / y)) else inf_of_sign (sgn x))"
| "rounded_div rnd NaN b = NaN"
| "rounded_div rnd a NaN = NaN"
| "rounded_div rnd (Finite x) b = Finite 0"
| "rounded_div rnd a (Finite y) = inf_of_sign (sign_of a * (if y < 0 then - 1 else 1))"
| "rounded_div rnd a b = NaN"

definition arith_of_rounding :: "(rat \<Rightarrow> rat) \<Rightarrow> arith" where
  "arith_of_rounding rnd =
     \<lparr>num_add = rounded_add rnd, num_mul = rounded_mul rnd, num_div = rounded_div rnd,
      num_lit = (\<lambda>q. Finite (rnd q))\<rparr>"

subsection \<open>Rounding to a double\<close>

text \<open>
  Rounding to the nearest number with a significand of 53 bits, to the even significand on
  a tie, as IEEE 754 binary64 does for numbers in its normal range (overflow and
  subnormal numbers are not modelled).
\<close>

fun bit_length :: "nat \<Rightarrow> nat" where
  "bit_length n = (if n = 0 then 0 else Suc (bit_length (n div 2)))"

declare bit_length.simps [simp del]

definition pow2 :: "int \<Rightarrow> rat" where
  "pow2 e = (if e \<ge> 0 then 2 ^ nat e else 1 / 2 ^ nat (- e))"

text \<open>For \<open>a > 0\<close>, the exponent \<open>e\<close> with \<open>2^e \<le> a < 2^(e+1)\<close>.\<close>

definition exponent_of :: "rat \<Rightarrow> int" where
  "exponent_of a =
     (if a \<ge> 1 then int (bit_length (nat \<lfloor>a\<rfloor>)) - 1
      else - int (bit_length (nat \<lceil>1 / a\<rceil> - 1)))"

definition round_half_even :: "rat \<Rightarrow> int" where
  "round_half_even q =
     (let f = \<lfloor>q\<rfloor>; d = q - of_int f in
      if d < 1 / 2 then f
      else if d > 1 / 2 then f + 1
      else if even f then f else f + 1)"

definition round_double :: "rat \<Rightarrow> rat" where
  "round_double x =
     (if x = 0 then 0
      else (let a = \<bar>x\<bar>; u = pow2 (exponent_of a - 52)
            in sgn x * of_int (round_half_even (a / u)) * u))"

definition double_arith :: arith where
  "double_arith = arith_of_rounding round_double"

text \<open>
  Histories whose entries have different full marks; the score 8.1 is the double that
  this literal denotes.  The two histories have the same scores and the same first
  \<open>maxScore\<close>.
\<close>

definition mixed_history :: "StudentResult list" where
  "mixed_history = [entry 8 10, entry 5 5, entry (round_double 8.1) 9]"

definition mixed_history_other :: "StudentResult list" where
  "mixed_history_other = [entry 8 10, entry 5 100, entry (round_double 8.1) 2]"

section \<open>Grading orchestrator (components/GradingView.tsx)\<close>

datatype GradingMode = Trial | Batch

datatype status = Scanning | Grading | Review | Error | Sleeping

text \<open>The operator-facing error texts of the component, by meaning.\<close>

datatype ui_message =
    Msg_no_active_tab        \<comment> \<open>the active tab cannot be determined\<close>
  | Msg_connection_failed    \<comment> \<open>no connection to the page: refresh or open the grading page\<close>
  | Msg_no_answer_image      \<comment> \<open>no answer-sheet image was located on the page\<close>
  | Msg_unknown_comm_error   \<comment> \<open>unknown error in the extension messaging\<close>
  | Msg_adapter string       \<comment> \<open>the error text the page adapter sent\<close>
  | Msg_ai_batch_paused      \<comment> \<open>AI service failed, batch grading was safely paused\<close>
  | Msg_ai_check_network     \<comment> \<open>AI service failed, check network or API key\<close>

datatype alert =
    Alert_configure_rubric   \<comment> \<open>batch grading paused: configure the rubric first\<close>
  | Alert_not_ready          \<comment> \<open>API, rubric and page link must all be ready\<close>
  | Alert_score_filled rat   \<comment> \<open>the score was filled in automatically\<close>

text \<open>
  The rubric handed to the scorer: the configured text, or the fixed generic fallback
  \<open>DEFAULT_GENERIC_RUBRIC\<close> (a Chinese text).
\<close>

datatype rubric_text = DEFAULT_GENERIC_RUBRIC | Rubric string

text \<open>
  What the component asks of the world around it, in the order it asks: timers
  (\<open>setTimeout\<close>, delay in milliseconds), \<open>chrome.tabs.query\<close>, \<open>chrome.tabs.sendMessage\<close>,
  the call of \<open>assessStudentAnswer\<close>, and \<open>alert\<close>.
\<close>

datatype task = ScanPage | MockScan | SubmitScore rat string

datatype channel_message = REQUEST_PAGE_DATA | FILL_SCORE rat string

datatype query_purpose = For_scan | For_fill rat string

datatype effect =
    SetTimeout task nat
  | TabsQuery query_purpose
  | SendMessage channel_message
  | AssessCall string rubric_text GradingStrategy
  | AlertBox alert

record health =
  h_api :: bool
  h_rubric :: bool
  h_pageLink :: bool

text \<open>
  A function of the component reads state variables and props as constants of the render
  that created it; a chain of callbacks and timers keeps the functions of the render it
  started in.  \<open>render\<close> holds these constants, and whether the global \<open>chrome.runtime\<close>
  messaging and \<open>chrome.tabs\<close> exist.
\<close>

record render =
  mode :: GradingMode
  r_pageContext :: "PageContext option"
  r_result :: "StudentResult option"
  r_health :: health
  isRubricConfigured :: bool
  currentRubric :: string
  gradingStrategy :: GradingStrategy
  chrome_runtime :: bool
  chrome_tabs :: bool

text \<open>
  The mutable part: the targets of the state setters, the two refs read by the
  asynchronous continuations, the local store, and the log of effects.
\<close>

record view =
  status :: status
  pageContext :: "PageContext option"
  result :: "StudentResult option"
  errorMsg :: "ui_message option"
  showEvidence :: bool
  activeBreakdownIndex :: "nat option"
  isBatchRunning :: bool
  batchCount :: nat
  scanWaitCount :: nat
  isBatchRunningRef :: bool
  lastGradedNameRef :: "string option"
  store :: localStorage
  effects :: "effect list"

definition emit :: "effect \<Rightarrow> view \<Rightarrow> view" where
  "emit x s = s\<lparr>effects := effects s @ [x]\<rparr>"

definition stopBatch :: "view \<Rightarrow> view" where
  "stopBatch s = s\<lparr>isBatchRunning := False, isBatchRunningRef := False, status := Sleeping\<rparr>"

definition handleScanError :: "ui_message \<Rightarrow> view \<Rightarrow> view" where
  "handleScanError msg s =
     (if isBatchRunningRef s then emit (SetTimeout ScanPage 2000) s
      else s\<lparr>errorMsg := Some msg, status := Error\<rparr>)"

text \<open>\<open>startGrading\<close> up to its \<open>await\<close>.\<close>

definition startGrading :: "render \<Rightarrow> PageContext \<Rightarrow> rubric_text \<Rightarrow> view \<Rightarrow> view" where
  "startGrading r ctx rubric s =
     emit (AssessCall (answerImageBase64 ctx) rubric (gradingStrategy r)) (s\<lparr>status := Grading\<rparr>)"

datatype 'a outcome = Resolved 'a | Rejected

text \<open>The fallback student name, a four-character Chinese text, as UTF-8 bytes.\<close>

definition unknown_student :: string where
  "unknown_student = [CHR 0xE6, CHR 0x9C, CHR 0xAA, CHR 0xE7, CHR 0x9F, CHR 0xA5,
                      CHR 0xE5, CHR 0xAD, CHR 0xA6, CHR 0xE7, CHR 0x94, CHR 0x9F]"

text \<open>\<open>startGrading\<close> from its \<open>await\<close> on: the promise resolved, or the \<open>catch\<close> block.\<close>

definition startGrading_settled ::
  "render \<Rightarrow> PageContext \<Rightarrow> StudentResult outcome \<Rightarrow> view \<Rightarrow> view" where
  "startGrading_settled r ctx out s =
     (case out of
        Resolved res0 \<Rightarrow>
          (let res = res0\<lparr>name := (if studentName ctx = [] then unknown_student
                                     else studentName ctx)\<rparr>;
               s1 = s\<lparr>result := Some res, status := Review, showEvidence := True\<rparr>
           in if mode r = Batch \<and> isBatchRunningRef s1
              then emit (SetTimeout (SubmitScore (score res) (name res)) 800) s1
              else s1)
      | Rejected \<Rightarrow>
          (if isBatchRunningRef s
           then (stopBatch s)\<lparr>errorMsg := Some Msg_ai_batch_paused, status := Error\<rparr>
           else s\<lparr>errorMsg := Some Msg_ai_check_network, status := Error\<rparr>))"

definition handlePageData :: "render \<Rightarrow> PageContext \<Rightarrow> view \<Rightarrow> view" where
  "handlePageData r data_in s =
     (let s1 = s\<lparr>pageContext := Some data_in\<rparr> in
      if \<not> isRubricConfigured r \<or> currentRubric r = [] then
        (if mode r = Batch \<and> isBatchRunningRef s1
         then emit (AlertBox Alert_configure_rubric)
                (stopBatch (s1\<lparr>status := Review, result := None\<rparr>))
         else startGrading r data_in DEFAULT_GENERIC_RUBRIC s1)
      else startGrading r data_in (Rubric (currentRubric r)) s1)"

text \<open>
  \<open>scanPage\<close>, its synchronous part.  Without \<open>chrome.runtime\<close> it arms the development
  mock; a missing \<open>chrome.tabs\<close> makes \<open>chrome.tabs.query\<close> throw into the \<open>catch\<close> block.
\<close>

definition scanPage :: "render \<Rightarrow> view \<Rightarrow> view" where
  "scanPage r s =
     (let s1 = (if \<not> isBatchRunningRef s then s\<lparr>status := Scanning, scanWaitCount := 0\<rparr> else s);
          s2 = s1\<lparr>errorMsg := None, pageContext := None, showEvidence := False,
                  activeBreakdownIndex := None\<rparr>
      in if \<not> chrome_runtime r then emit (SetTimeout MockScan 1000) s2
         else if \<not> chrome_tabs r then handleScanError Msg_unknown_comm_error s2
         else emit (TabsQuery For_scan) s2)"

text \<open>The development mock's timer callback, with the random name it drew.\<close>

definition scanPage_mock :: "render \<Rightarrow> string \<Rightarrow> view \<Rightarrow> view" where
  "scanPage_mock r mockName s =
     (if Some mockName = lastGradedNameRef s \<and> isBatchRunningRef s
      then emit (SetTimeout ScanPage 1000) (s\<lparr>scanWaitCount := scanWaitCount s + 1\<rparr>)
      else handlePageData r
             \<lparr>platform = ''DEV_MOCK'', studentName = mockName,
              answerImageBase64 = ''R0lGODlhAQABAIAAAAAAAP///yH5BAEAAAAALAAAAAABAAEAAAIBRAA7'',
              timestamp = None\<rparr>
             (s\<lparr>scanWaitCount := 0\<rparr>))"

text \<open>The callback of \<open>chrome.tabs.query\<close>: the id of the active tab, if there is one.\<close>

definition scanPage_tabs :: "render \<Rightarrow> nat option \<Rightarrow> view \<Rightarrow> view" where
  "scanPage_tabs r activeTab s =
     (case activeTab of
        None \<Rightarrow> handleScanError Msg_no_active_tab s
      | Some tab_id \<Rightarrow>
          if tab_id = 0 then handleScanError Msg_no_active_tab s
          else emit (SendMessage REQUEST_PAGE_DATA) s)"

record scan_response =
  success :: bool
  data :: "PageContext option"
  error :: "string option"

text \<open>
  The callback of \<open>chrome.tabs.sendMessage\<close>: whether \<open>chrome.runtime.lastError\<close> is set,
  and the response (\<open>None\<close> is undefined).
\<close>

definition scanPage_response :: "render \<Rightarrow> bool \<Rightarrow> scan_response option \<Rightarrow> view \<Rightarrow> view" where
  "scanPage_response r lastError response s =
     (if lastError then handleScanError Msg_connection_failed s
      else
        (case (case response of
                 None \<Rightarrow> None
               | Some resp \<Rightarrow> if success resp then data resp else None) of
           Some d \<Rightarrow>
             if isBatchRunningRef s \<and> Some (studentName d) = lastGradedNameRef s
             then emit (SetTimeout ScanPage 1500) (s\<lparr>scanWaitCount := scanWaitCount s + 1\<rparr>)
             else handlePageData r d (s\<lparr>scanWaitCount := 0\<rparr>)
         | None \<Rightarrow>
             if isBatchRunningRef s
             then emit (SetTimeout ScanPage 2000) (s\<lparr>scanWaitCount := scanWaitCount s + 1\<rparr>)
             else handleScanError
                    (case (case response of None \<Rightarrow> None | Some resp \<Rightarrow> error resp) of
                       None \<Rightarrow> Msg_no_answer_image
                     | Some e \<Rightarrow> if e = [] then Msg_no_answer_image else Msg_adapter e)
                    s))"

text \<open>
  \<open>handleSubmitScore\<close>, its synchronous part; \<open>pageContext\<close> and \<open>result\<close> are the ones of
  the render.
\<close>

definition handleSubmitScore :: "render \<Rightarrow> env \<Rightarrow> string \<Rightarrow> rat \<Rightarrow> string \<Rightarrow> view \<Rightarrow> view" where
  "handleSubmitScore r e now sc student_name s =
     (let s1 = (case r_pageContext r of
                  None \<Rightarrow> s
                | Some pc \<Rightarrow>
                    if platform pc \<noteq> [] \<and> chrome_tabs r
                    then emit (TabsQuery (For_fill sc (platform pc))) s
                    else s);
          s2 = s1\<lparr>store := recordHistory e now (r_result r) sc student_name (store s1)\<rparr>
      in if mode r = Batch \<and> isBatchRunningRef s2
         then emit (SetTimeout ScanPage 2000)
                (s2\<lparr>batchCount := batchCount s2 + 1, lastGradedNameRef := Some student_name\<rparr>)
         else s2)"

text \<open>The callback of \<open>chrome.tabs.query\<close> inside \<open>handleSubmitScore\<close>.\<close>

definition handleSubmitScore_tabs :: "render \<Rightarrow> nat option \<Rightarrow> rat \<Rightarrow> string \<Rightarrow> view \<Rightarrow> view" where
  "handleSubmitScore_tabs r activeTab sc plat s =
     (case activeTab of
        None \<Rightarrow> s
      | Some tab_id \<Rightarrow> if tab_id = 0 then s else emit (SendMessage (FILL_SCORE sc plat)) s)"

text \<open>The callback of the \<open>FILL_SCORE\<close> message: whether the adapter reported success.\<close>

definition handleSubmitScore_filled :: "render \<Rightarrow> bool \<Rightarrow> rat \<Rightarrow> view \<Rightarrow> view" where
  "handleSubmitScore_filled r filled sc s =
     (if mode r = Trial \<and> filled then emit (AlertBox (Alert_score_filled sc)) s else s)"

definition startBatch :: "render \<Rightarrow> view \<Rightarrow> view" where
  "startBatch r s =
     (if \<not> h_api (r_health r) \<or> \<not> h_rubric (r_health r) \<or> \<not> h_pageLink (r_health r)
      then emit (AlertBox Alert_not_ready) s
      else scanPage r (s\<lparr>isBatchRunning := True, isBatchRunningRef := True, batchCount := 0,
                         scanWaitCount := 0, lastGradedNameRef := None\<rparr>))"

text \<open>The effect that runs when \<open>mode\<close> changes.\<close>

definition mode_effect :: "render \<Rightarrow> view \<Rightarrow> view" where
  "mode_effect r s =
     (let s1 = stopBatch s in
      if mode r = Trial then scanPage r (s1\<lparr>status := Scanning\<rparr>)
      else s1\<lparr>status := Sleeping\<rparr>)"

subsection \<open>Driving the polling loop\<close>

text \<open>
  What one scan of the page comes back with: no active tab, a lost connection
  (\<open>chrome.runtime.lastError\<close>), or a response of the page adapter.
\<close>

datatype scan_result = No_tab | Connection_lost | Replied "scan_response option"

text \<open>
  One invocation of \<open>scanPage\<close> together with the callbacks of the two chrome calls it
  makes, when the chrome objects exist.
\<close>

definition scan_attempt :: "render \<Rightarrow> scan_result \<Rightarrow> view \<Rightarrow> view" where
  "scan_attempt r res s =
     (if chrome_runtime r \<and> chrome_tabs r then
        (case res of
           No_tab \<Rightarrow> scanPage_tabs r None (scanPage r s)
         | Connection_lost \<Rightarrow> scanPage_response r True None (scanPage_tabs r (Some 1) (scanPage r s))
         | Replied resp \<Rightarrow> scanPage_response r False resp (scanPage_tabs r (Some 1) (scanPage r s)))
      else scanPage r s)"

text \<open>Whether the last thing the component did was to arm a timer for \<open>scanPage\<close>.\<close>

definition retry_pending :: "view \<Rightarrow> bool" where
  "retry_pending s =
     (case rev (effects s) of
        SetTimeout ScanPage delay # before \<Rightarrow> True
      | _ \<Rightarrow> False)"

text \<open>
  The polling loop on a sequence of scan results: each scan consumes one result, and the
  next scan runs when the previous one armed the \<open>scanPage\<close> timer.
\<close>

fun poll :: "render \<Rightarrow> scan_result list \<Rightarrow> view \<Rightarrow> view" where
  "poll r [] s = s"
| "poll r (res # results) s =
     (let s1 = scan_attempt r res s in
      if retry_pending s1 then poll r results s1 else s1)"

text \<open>A successful response that carries the page data \<open>d\<close>.\<close>

definition page_data :: "PageContext \<Rightarrow> scan_result" where
  "page_data d = Replied (Some \<lparr>success = True, data = Some d, error = None\<rparr>)"

text \<open>A scan that failed: anything but a successful response with data.\<close>

fun scan_failed :: "scan_result \<Rightarrow> bool" where
  "scan_failed No_tab = True"
| "scan_failed Connection_lost = True"
| "scan_failed (Replied None) = True"
| "scan_failed (Replied (Some resp)) = (\<not> success resp \<or> data resp = None)"

text \<open>The effects added between two states, and the timers among them.\<close>

definition new_effects :: "view \<Rightarrow> view \<Rightarrow> effect list" where
  "new_effects s s' = drop (length (effects s)) (effects s')"

fun is_timer :: "effect \<Rightarrow> bool" where
  "is_timer (SetTimeout t d) = True"
| "is_timer other = False"

text \<open>The state the component starts in (the initial values of its state and refs).\<close>

definition initial_view :: "localStorage \<Rightarrow> view" where
  "initial_view st =
     \<lparr>status = Scanning, pageContext = None, result = None, errorMsg = None,
      showEvidence = False, activeBreakdownIndex = None, isBatchRunning = False,
      batchCount = 0, scanWaitCount = 0, isBatchRunningRef = False,
      lastGradedNameRef = None, store = st, effects = []\<rparr>"

text \<open>Sample data: a page of a student, and a render in batch mode with everything ready.\<close>

definition page_of :: "string \<Rightarrow> PageContext" where
  "page_of student = \<lparr>platform = ''ZHIXUE'', studentName = student,
     answerImageBase64 = ''aW1n'', timestamp = Some 1700000000000\<rparr>"

definition batch_render :: render where
  "batch_render =
     \<lparr>mode = Batch, r_pageContext = Some (page_of ''Wang''), r_result = Some (entry 7 10),
      r_health = \<lparr>h_api = True, h_rubric = True, h_pageLink = True\<rparr>,
      isRubricConfigured = True, currentRubric = ''full marks 10'', gradingStrategy = flash,
      chrome_runtime = True, chrome_tabs = True\<rparr>"

text \<open>The batch loop running, the student \<open>student\<close> graded last.\<close>

definition running_view :: "string \<Rightarrow> view" where
  "running_view student =
     (initial_view (history_store []))
       \<lparr>status := Review, isBatchRunning := True, isBatchRunningRef := True,
        batchCount := 1, lastGradedNameRef := Some student\<rparr>"

text \<open>
  The effects of one round of waiting: the tab query, the request to the page, and the
  timer for the next scan.
\<close>

definition wait_round :: "effect list" where
  "wait_round = [TabsQuery For_scan, SendMessage REQUEST_PAGE_DATA, SetTimeout ScanPage 1500]"

text \<open>Three scans that still show the student graded last.\<close>

definition waiting_pages :: "PageContext list" where
  "waiting_pages = [page_of ''Wang'', page_of ''Wang'', page_of ''Wang'']"

text \<open>
  The scenario of a stop during the delay of the automatic submission: the grading of the
  student Li resolves while the loop runs, the operator stops the batch, the 800 ms timer
  fires \<open>handleSubmitScore\<close>, and the tab query of the submission calls back.
\<close>

definition graded_Li :: view where
  "graded_Li =
     startGrading_settled batch_render (page_of ''Li'') (Resolved (entry 9 10))
       (running_view ''Wang'')"

definition stopped_Li :: view where
  "stopped_Li = stopBatch graded_Li"

definition submitted_Li :: view where
  "submitted_Li =
     handleSubmitScore_tabs batch_render (Some 1) 9 ''ZHIXUE''
       (handleSubmitScore batch_render \<lparr>env_API_KEY = None, quota_exceeded = False\<rparr>
          ''1700000000800'' 9 ''Li'' stopped_Li)"

section \<open>Page adapter (content.js)\<close>

text \<open>
  Of an element the adapter reads the tag name and whether \<open>offsetParent\<close> is null (the
  element is not rendered); \<open>el_id\<close> tells elements apart.  Of the page it reads the host
  name, \<open>document.querySelector\<close> and \<open>document.activeElement\<close>.
\<close>

record element =
  el_id :: nat
  tagName :: string
  offsetParent_null :: bool

record page =
  hostname :: string
  querySelector :: "string \<Rightarrow> element option"
  activeElement :: "element option"

fun starts_with :: "string \<Rightarrow> string \<Rightarrow> bool" where
  "starts_with s [] = True"
| "starts_with [] (c # sub) = False"
| "starts_with (a # s) (c # sub) = (a = c \<and> starts_with s sub)"

text \<open>\<open>String.prototype.includes\<close>.\<close>

fun includes_str :: "string \<Rightarrow> string \<Rightarrow> bool" where
  "includes_str [] sub = (sub = [])"
| "includes_str (a # s) sub = (starts_with (a # s) sub \<or> includes_str s sub)"

definition detectPlatform :: "page \<Rightarrow> string" where
  "detectPlatform p =
     (if includes_str (hostname p) ''zhixue'' then ''ZHIXUE''
      else if includes_str (hostname p) ''haofenshu'' \<or> includes_str (hostname p) ''7net''
      then ''HAOFENSHU''
      else ''GENERIC'')"

text \<open>
  The score-input selectors per platform.  The double quote inside a selector is written
  \<open>CHR 0x22\<close>, and the Chinese character of the fourth generic selector as its UTF-8
  bytes.  The table is looked up with a platform tag; a key that names a property every
  object inherits (such as \<open>constructor\<close>) is outside the model.
\<close>

definition SCORE_INPUT_GENERIC :: "string list" where
  "SCORE_INPUT_GENERIC =
     [''input[type='' @ [CHR 0x22] @ ''number'' @ [CHR 0x22] @ '']'',
      ''input.score'',
      ''input.mark'',
      ''input[placeholder*='' @ [CHR 0x22, CHR 0xE5, CHR 0x88, CHR 0x86, CHR 0x22] @ '']'',
      ''input[placeholder*='' @ [CHR 0x22] @ ''score'' @ [CHR 0x22] @ '']'']"

definition SCORE_INPUT_CONFIGS :: "string \<Rightarrow> string list option" where
  "SCORE_INPUT_CONFIGS key =
     (if key = ''ZHIXUE'' then
        Some [''.score-input'', ''.score-box input'', ''.postil-score input'',
              ''input[ng-model='' @ [CHR 0x22] @ ''score'' @ [CHR 0x22] @ '']'',
              ''.mark-input'']
      else if key = ''HAOFENSHU'' then
        Some [''#scoreInput'', ''.js-score-input'', ''.input-score'',
              ''input[type='' @ [CHR 0x22] @ ''number'' @ [CHR 0x22] @ ''].mark-input'']
      else if key = ''GENERIC'' then Some SCORE_INPUT_GENERIC
      else None)"

text \<open>
  The loop over the selectors: \<open>input\<close> is assigned at every selector, and the loop breaks
  at the first one whose match is rendered.
\<close>

fun select_input :: "page \<Rightarrow> string list \<Rightarrow> element option \<Rightarrow> element option" where
  "select_input p [] input = input"
| "select_input p (sel # sels) input =
     (case querySelector p sel of
        None \<Rightarrow> select_input p sels None
      | Some el \<Rightarrow> if \<not> offsetParent_null el then Some el else select_input p sels (Some el))"

datatype dom_event = Ev_input | Ev_change | Ev_blur | Ev_keydown_Enter

datatype fill_error =
    No_visible_input     \<comment> \<open>no visible score input was found\<close>
  | Input_exception      \<comment> \<open>an exception while operating the input\<close>

text \<open>
  What \<open>tryFillScore\<close> returns (\<open>fill_success\<close>, \<open>fill_error\<close>) and what it did to the page:
  the element whose value it set, and the events it dispatched on that element.
\<close>

record fill_outcome =
  fill_success :: bool
  fill_error :: "fill_error option"
  fill_target :: "element option"
  fill_value :: "rat option"
  dispatched :: "dom_event list"

text \<open>
  The native value setter of \<open>HTMLInputElement\<close> throws when it is called on an element
  that is no input element; the \<open>catch\<close> block turns this into the failure result.
\<close>

definition tryFillScore :: "rat \<Rightarrow> string option \<Rightarrow> page \<Rightarrow> fill_outcome" where
  "tryFillScore sc platformHint p =
     (let plat = (case platformHint of
                    None \<Rightarrow> detectPlatform p
                  | Some h \<Rightarrow> if h = [] then detectPlatform p else h);
          selectors = (case SCORE_INPUT_CONFIGS plat of None \<Rightarrow> [] | Some l \<Rightarrow> l)
                        @ SCORE_INPUT_GENERIC;
          input1 = select_input p selectors None;
          input2 = (case input1 of
                      Some el \<Rightarrow> input1
                    | None \<Rightarrow>
                        (case activeElement p of
                           None \<Rightarrow> None
                         | Some a \<Rightarrow> if tagName a = ''INPUT'' then Some a else None))
      in case input2 of
           None \<Rightarrow> \<lparr>fill_success = False, fill_error = Some No_visible_input,
                     fill_target = None, fill_value = None, dispatched = []\<rparr>
         | Some el \<Rightarrow>
             if tagName el \<noteq> ''INPUT''
             then \<lparr>fill_success = False, fill_error = Some Input_exception,
                   fill_target = None, fill_value = None, dispatched = []\<rparr>
             else \<lparr>fill_success = True, fill_error = None,
                   fill_target = Some el, fill_value = Some sc,
                   dispatched = [Ev_input, Ev_change, Ev_blur, Ev_keydown_Enter]\<rparr>)"

text \<open>
  A page on which only the last generic selector matches, and what it matches is a hidden
  input, while the operator has focused another, visible input.
\<close>

definition hidden_input :: element where
  "hidden_input = \<lparr>el_id = 1, tagName = ''INPUT'', offsetParent_null = True\<rparr>"

definition focused_input :: element where
  "focused_input = \<lparr>el_id = 2, tagName = ''INPUT'', offsetParent_null = False\<rparr>"

definition hidden_match_page :: page where
  "hidden_match_page =
     \<lparr>hostname = ''www.zhixue.com'',
      querySelector = (\<lambda>sel. if sel = last SCORE_INPUT_GENERIC then Some hidden_input else None),
      activeElement = Some focused_input\<rparr>"

section \<open>Properties of the provider gateway\<close>

text \<open>
  C9. With a stored configuration whose provider is not the managed Google provider,
  every strategy yields the same request: a chat completion whose model is the configured
  model name and which carries no reasoning budget.  With the Google provider (and a key
  to build the client from), strategy flash selects gemini-2.5-flash with no budget, and
  pro and reasoning both select gemini-3-pro-preview, with budgets 2048 and 16384.
\<close>

theorem C9_strategy_only_for_google:
  "(provider config \<noteq> google \<longrightarrow>
      getModelName strategy config = modelName config \<and>
      (\<exists>r. assessStudentAnswer e (st\<lparr>app_model_config := Value_of config\<rparr>) img rub strategy = Inr r
           \<and> request_model r = modelName config \<and> request_budget r = None
           \<and> (\<forall>strategy'. assessStudentAnswer e (st\<lparr>app_model_config := Value_of config\<rparr>)
                  img rub strategy' = Inr r)))
   \<and> (provider config = google \<longrightarrow>
      getModelName flash config = ''gemini-2.5-flash'' \<and>
      getModelName pro config = ''gemini-3-pro-preview'' \<and>
      getModelName reasoning config = ''gemini-3-pro-preview'' \<and>
      (getGoogleClient e (apiKey config) \<noteq> None \<longrightarrow>
        (\<exists>rf rp rr.
           assessStudentAnswer e (st\<lparr>app_model_config := Value_of config\<rparr>) img rub flash = Inr rf \<and>
           assessStudentAnswer e (st\<lparr>app_model_config := Value_of config\<rparr>) img rub pro = Inr rp \<and>
           assessStudentAnswer e (st\<lparr>app_model_config := Value_of config\<rparr>) img rub reasoning = Inr rr \<and>
           request_model rf = ''gemini-2.5-flash'' \<and> request_budget rf = None \<and>
           request_model rp = ''gemini-3-pro-preview'' \<and> request_budget rp = Some 2048 \<and>
           request_model rr = ''gemini-3-pro-preview'' \<and> request_budget rr = Some 16384 \<and>
           request_budget rp \<noteq> request_budget rr)))"
  by (auto simp: assessStudentAnswer_def getAppConfig_def getModelName_def
        callOpenAICompatible_def thinkingConfig_def)

theorem C9_strategy_only_for_google_witness:
  "getModelName reasoning
      \<lparr>provider = zhipu, endpoint = ''https://open.bigmodel.cn/api/paas/v4/chat/completions'',
       modelName = ''glm-4-plus'', apiKey = ''k''\<rparr> = ''glm-4-plus''
   \<and> getModelName reasoning (DEFAULT_CONFIG\<lparr>apiKey := ''k''\<rparr>) = ''gemini-3-pro-preview''
   \<and> getGoogleClient \<lparr>env_API_KEY = None, quota_exceeded = False\<rparr>
        (apiKey (DEFAULT_CONFIG\<lparr>apiKey := ''k''\<rparr>)) \<noteq> None
   \<and> (\<exists>rp. assessStudentAnswer \<lparr>env_API_KEY = None, quota_exceeded = False\<rparr>
              (\<lparr>app_model_config = Absent, grading_history = Absent\<rparr>
                 \<lparr>app_model_config := Value_of (DEFAULT_CONFIG\<lparr>apiKey := ''k''\<rparr>)\<rparr>)
              ''img'' ''rubric'' pro = Inr rp
            \<and> request_budget rp = Some 2048)"
  using C9_strategy_only_for_google
      [of "\<lparr>provider = zhipu, endpoint = ''https://open.bigmodel.cn/api/paas/v4/chat/completions'',
            modelName = ''glm-4-plus'', apiKey = ''k''\<rparr>" reasoning]
    C9_strategy_only_for_google
      [of "DEFAULT_CONFIG\<lparr>apiKey := ''k''\<rparr>" reasoning
          "\<lparr>env_API_KEY = None, quota_exceeded = False\<rparr>"
          "\<lparr>app_model_config = Absent, grading_history = Absent\<rparr>" "''img''" "''rubric''"]
  by (auto simp: DEFAULT_CONFIG_def getGoogleClient_def)

text \<open>
  C7. Saving a configuration record and loading it again returns the same record: the
  same provider, endpoint, model name and API key.
\<close>

theorem C7_config_roundtrip:
  "saveAppConfig e config st = Inr st' \<Longrightarrow>
     getAppConfig e' st' = Inr config \<and>
     (\<exists>c. getAppConfig e' st' = Inr c \<and> provider c = provider config \<and>
          endpoint c = endpoint config \<and> modelName c = modelName config \<and>
          apiKey c = apiKey config)"
  by (auto simp: saveAppConfig_def getAppConfig_def split: if_splits)

theorem C7_config_roundtrip_witness:
  "saveAppConfig \<lparr>env_API_KEY = Some ''envkey'', quota_exceeded = False\<rparr>
      \<lparr>provider = openai, endpoint = ''https://api.openai.com/v1/chat/completions'',
       modelName = ''gpt-4o'', apiKey = ''sk-1''\<rparr>
      \<lparr>app_model_config = Absent, grading_history = Absent\<rparr>
    = Inr \<lparr>app_model_config = Value_of
              \<lparr>provider = openai, endpoint = ''https://api.openai.com/v1/chat/completions'',
               modelName = ''gpt-4o'', apiKey = ''sk-1''\<rparr>,
           grading_history = Absent\<rparr>
   \<and> getAppConfig \<lparr>env_API_KEY = Some ''envkey'', quota_exceeded = False\<rparr>
        \<lparr>app_model_config = Value_of
              \<lparr>provider = openai, endpoint = ''https://api.openai.com/v1/chat/completions'',
               modelName = ''gpt-4o'', apiKey = ''sk-1''\<rparr>,
         grading_history = Absent\<rparr>
      = Inr \<lparr>provider = openai, endpoint = ''https://api.openai.com/v1/chat/completions'',
             modelName = ''gpt-4o'', apiKey = ''sk-1''\<rparr>"
proof -
  have h: "saveAppConfig \<lparr>env_API_KEY = Some ''envkey'', quota_exceeded = False\<rparr>
      \<lparr>provider = openai, endpoint = ''https://api.openai.com/v1/chat/completions'',
       modelName = ''gpt-4o'', apiKey = ''sk-1''\<rparr>
      \<lparr>app_model_config = Absent, grading_history = Absent\<rparr>
    = Inr \<lparr>app_model_config = Value_of
              \<lparr>provider = openai, endpoint = ''https://api.openai.com/v1/chat/completions'',
               modelName = ''gpt-4o'', apiKey = ''sk-1''\<rparr>,
           grading_history = Absent\<rparr>"
    by (simp add: saveAppConfig_def)
  from C7_config_roundtrip [OF h] h show ?thesis by simp
qed

section \<open>Properties of the analysis view\<close>

lemma toFixed_avg: "toFixed 2 (22 / 3) = 7.33"
proof -
  have "\<lfloor>(4403::rat) / 6\<rfloor> = 733" by (rule floor_unique) simp_all
  then show ?thesis by (simp add: toFixed_def)
qed

lemma toFixed_rate: "toFixed 1 (200 / 3) = 66.7"
proof -
  have "\<lfloor>(4003::rat) / 6\<rfloor> = 667" by (rule floor_unique) simp_all
  then show ?thesis by (simp add: toFixed_def)
qed

lemma stats_example:
  "stats_of (entry 8 10) example_history =
     \<lparr>avgScore = 22 / 3, passRate = 200 / 3, difficulty = 11 / 15, count = 3,
      distribution =
        [\<lparr>d_name = Needs_work, d_value = 1, d_color = ''#ef4444''\<rparr>,
         \<lparr>d_name = Passed, d_value = 0, d_color = ''#f97316''\<rparr>,
         \<lparr>d_name = Good, d_value = 1, d_color = ''#3b82f6''\<rparr>,
         \<lparr>d_name = Excellent, d_value = 1, d_color = ''#22c55e''\<rparr>]\<rparr>"
  by (simp add: stats_of_def example_history_def entry_def count_buckets_def bucket_index_def
        js_divide_def passThreshold_def full_marks_def)

lemma calculateStats_example:
  "calculateStats (history_store example_history) =
     Inr (Some (stats_of (entry 8 10) example_history))"
  by (simp add: calculateStats_def history_store_def example_history_def)

text \<open>
  C5, as the code computes it.  For the history with scores 8, 5 and 9 out of 10 the
  average is 22/3 (7.33 to two decimals), the pass threshold is 6, the pass rate is 200/3
  percent (66.7 to one decimal), and the distribution is Needs_work 1, Passed 0, Good 1,
  Excellent 1: the score 5 has ratio 0.5, below 0.6, so it falls into the lowest bucket.
\<close>

theorem C5_example_stats:
  "calculateStats (history_store example_history) =
     Inr (Some \<lparr>avgScore = 22 / 3, passRate = 200 / 3, difficulty = 11 / 15, count = 3,
      distribution =
        [\<lparr>d_name = Needs_work, d_value = 1, d_color = ''#ef4444''\<rparr>,
         \<lparr>d_name = Passed, d_value = 0, d_color = ''#f97316''\<rparr>,
         \<lparr>d_name = Good, d_value = 1, d_color = ''#3b82f6''\<rparr>,
         \<lparr>d_name = Excellent, d_value = 1, d_color = ''#22c55e''\<rparr>]\<rparr>)
   \<and> toFixed 2 (22 / 3) = 7.33 \<and> toFixed 1 (200 / 3) = 66.7
   \<and> passThreshold (entry 8 10) = 6"
proof -
  have "passThreshold (entry 8 10) = 6"
    by (simp add: passThreshold_def full_marks_def entry_def)
  then show ?thesis
    by (simp only: calculateStats_example stats_example toFixed_avg toFixed_rate simp_thms)
qed

text \<open>
  C5 with the distribution the specification's example gives does not hold: no result of
  \<open>calculateStats\<close> on the example history has the distribution Needs_work 0, Passed 1,
  Good 1, Excellent 1.
\<close>

theorem C5_example_counterexample:
  "\<not> (\<exists>s. calculateStats (history_store example_history) = Inr (Some s)
         \<and> toFixed 2 (avgScore s) = 7.33 \<and> toFixed 1 (passRate s) = 66.7
         \<and> map (\<lambda>b. (d_name b, d_value b)) (distribution s) =
             [(Needs_work, 0), (Passed, 1), (Good, 1), (Excellent, 1)])"
  by (simp add: calculateStats_example stats_example)



text \<open>
  The example history in double arithmetic: the average and the pass rate are rounded, and
  they print as 7.33 and 66.7; the threshold is 6 and the distribution is the same as in
  exact arithmetic.
\<close>

lemma stats_example_in_doubles:
  "calculateStats_in double_arith (history_store example_history) =
     Inr (Some \<lparr>avgScore = Finite (8256599316845909 / 1125899906842624),
                passRate = Finite (2345624805922133 / 35184372088832),
                difficulty = Finite (6605279453476727 / 9007199254740992), count = 3,
      distribution =
        [\<lparr>d_name = Needs_work, d_value = 1, d_color = ''#ef4444''\<rparr>,
         \<lparr>d_name = Passed, d_value = 0, d_color = ''#f97316''\<rparr>,
         \<lparr>d_name = Good, d_value = 1, d_color = ''#3b82f6''\<rparr>,
         \<lparr>d_name = Excellent, d_value = 1, d_color = ''#22c55e''\<rparr>]\<rparr>)"
  "toFixed 2 (8256599316845909 / 1125899906842624) = 7.33"
  "toFixed 1 (2345624805922133 / 35184372088832) = 66.7"
  "passThreshold_in double_arith (entry 8 10) = Finite 6"
  by code_simp+

text \<open>On the exact value of the double 0.35, \<open>toFixed\<close> prints 0.3.\<close>

lemma toFixed_on_double: "toFixed 1 (round_double (7 / 20)) = 0.3"
  by code_simp

text \<open>With no rounding, the bucket of an entry is the one of the exact analysis.\<close>

lemma bucket_in_exact: "bucket_in (arith_of_rounding (\<lambda>x. x)) s = bucket_index s"
  by (simp add: bucket_in_def bucket_index_def arith_of_rounding_def js_divide_def
        inf_of_sign_def Let_def)

lemma bucket_in_cases:
  "bucket_in A s = 0 \<or> bucket_in A s = 1 \<or> bucket_in A s = 2 \<or> bucket_in A s = 3"
  by (simp add: bucket_in_def Let_def)

lemma fold_buckets_in:
  "fold (\<lambda>s buckets. buckets[bucket_in A s := Suc (buckets ! bucket_in A s)]) h [a, b, c, d]
     = [a + length (filter (\<lambda>s. bucket_in A s = 0) h),
        b + length (filter (\<lambda>s. bucket_in A s = 1) h),
        c + length (filter (\<lambda>s. bucket_in A s = 2) h),
        d + length (filter (\<lambda>s. bucket_in A s = 3) h)]"
proof (induction h arbitrary: a b c d)
  case Nil
  then show ?case by simp
next
  case (Cons s h)
  from bucket_in_cases [of A s] show ?case
    by (elim disjE) (simp_all add: Cons.IH numeral_2_eq_2 numeral_3_eq_3)
qed

lemma count_buckets_in_eq:
  "count_buckets_in A h = map (\<lambda>k. length (filter (\<lambda>s. bucket_in A s = k) h)) [0, 1, 2, 3]"
  unfolding count_buckets_in_def by (simp add: fold_buckets_in)

lemma fold_total_in:
  "fold (\<lambda>curr acc. num_add A acc (Finite (score curr))) h a
     = fold (\<lambda>x acc. num_add A acc (Finite x)) (map score h) a"
  by (induction h arbitrary: a) simp_all

lemma length_filter_map: "length (filter (\<lambda>s. P (f s)) h) = length (filter P (map f h))"
  by (induction h) simp_all

text \<open>
  C10. In every arithmetic of numbers \<open>A\<close> (whatever the rounding of its operations and
  literals), for a non-empty history: the full marks are the first entry's \<open>maxScore\<close>, or
  the literal 100 when that is zero; the pass threshold is the product of these full marks
  and the literal 0.6, and every entry's score is compared with this one threshold; the
  difficulty divides the average by the same full marks.  So two histories with the same
  scores and the same first \<open>maxScore\<close> have the same average, pass rate and difficulty,
  whatever the other entries' \<open>maxScore\<close> are.  The four buckets count the entries by
  \<open>bucket_in\<close>, which is determined by the entry's own \<open>score\<close> and \<open>maxScore\<close> and places
  the entry by comparing the quotient of the two with the literals 0.6, 0.75 and 0.9.
\<close>

theorem C10_single_threshold:
  assumes "h \<noteq> []"
  shows "calculateStats_in A (history_store h) = Inr (Some (stats_in A (hd h) h))
    \<and> full_marks_in A (hd h)
         = (if maxScore (hd h) = 0 then num_lit A 100 else Finite (maxScore (hd h)))
    \<and> passThreshold_in A (hd h) = num_mul A (full_marks_in A (hd h)) (num_lit A 0.6)
    \<and> passRate (stats_in A (hd h) h) =
         num_mul A
           (num_div A
              (Finite (of_nat (length
                 (filter (\<lambda>s. num_ge (Finite (score s)) (passThreshold_in A (hd h))) h))))
              (Finite (of_nat (length h))))
           (num_lit A 100)
    \<and> difficulty (stats_in A (hd h) h)
         = num_div A (avgScore (stats_in A (hd h) h)) (full_marks_in A (hd h))
    \<and> (h' \<noteq> [] \<and> map score h' = map score h \<and> maxScore (hd h') = maxScore (hd h) \<longrightarrow>
         avgScore (stats_in A (hd h') h') = avgScore (stats_in A (hd h) h) \<and>
         passRate (stats_in A (hd h') h') = passRate (stats_in A (hd h) h) \<and>
         difficulty (stats_in A (hd h') h') = difficulty (stats_in A (hd h) h))
    \<and> map d_value (distribution (stats_in A (hd h) h)) =
         map (\<lambda>k. length (filter (\<lambda>s. bucket_in A s = k) h)) [0, 1, 2, 3]
    \<and> (\<forall>s s'. score s' = score s \<and> maxScore s' = maxScore s \<longrightarrow>
           bucket_in A s' = bucket_in A s)
    \<and> (\<forall>s. (bucket_in A s = 0) =
           num_lt (num_div A (Finite (score s)) (Finite (maxScore s))) (num_lit A 0.6))
    \<and> (\<forall>s. (bucket_in A s = 3) =
           (\<not> num_lt (num_div A (Finite (score s)) (Finite (maxScore s))) (num_lit A 0.6) \<and>
            \<not> num_lt (num_div A (Finite (score s)) (Finite (maxScore s))) (num_lit A 0.75) \<and>
            \<not> num_lt (num_div A (Finite (score s)) (Finite (maxScore s))) (num_lit A 0.9)))"
proof -
  obtain first rest where h: "h = first # rest" using assms by (cases h) auto
  have a: "calculateStats_in A (history_store h) = Inr (Some (stats_in A (hd h) h))"
    by (simp add: h calculateStats_in_def history_store_def)
  have b: "map d_value (distribution (stats_in A (hd h) h)) =
         map (\<lambda>k. length (filter (\<lambda>s. bucket_in A s = k) h)) [0, 1, 2, 3]"
    by (simp add: stats_in_def Let_def count_buckets_in_eq)
  have c: "avgScore (stats_in A (hd h') h') = avgScore (stats_in A (hd h) h) \<and>
         passRate (stats_in A (hd h') h') = passRate (stats_in A (hd h) h) \<and>
         difficulty (stats_in A (hd h') h') = difficulty (stats_in A (hd h) h)"
    if "h' \<noteq> []" "map score h' = map score h" "maxScore (hd h') = maxScore (hd h)"
  proof -
    have len: "length h' = length h" using that(2) by (metis length_map)
    have thr: "passThreshold_in A (hd h') = passThreshold_in A (hd h)"
      "full_marks_in A (hd h') = full_marks_in A (hd h)"
      using that(3) by (simp_all add: passThreshold_in_def full_marks_in_def)
    have cnt: "length (filter (\<lambda>s. num_ge (Finite (score s)) (passThreshold_in A (hd h))) h')
             = length (filter (\<lambda>s. num_ge (Finite (score s)) (passThreshold_in A (hd h))) h)"
      using that(2)
      by (simp add: length_filter_map
            [where f = score and P = "\<lambda>x. num_ge (Finite x) (passThreshold_in A (hd h))"])
    show ?thesis
      by (simp add: stats_in_def Let_def fold_total_in that(2) len thr cnt)
  qed
  have d: "bucket_in A s' = bucket_in A s" if "score s' = score s" "maxScore s' = maxScore s"
    for s s' :: StudentResult
    using that by (simp add: bucket_in_def)
  have e: "(bucket_in A s = 0) =
           num_lt (num_div A (Finite (score s)) (Finite (maxScore s))) (num_lit A 0.6)"
    "(bucket_in A s = 3) =
           (\<not> num_lt (num_div A (Finite (score s)) (Finite (maxScore s))) (num_lit A 0.6) \<and>
            \<not> num_lt (num_div A (Finite (score s)) (Finite (maxScore s))) (num_lit A 0.75) \<and>
            \<not> num_lt (num_div A (Finite (score s)) (Finite (maxScore s))) (num_lit A 0.9))"
    for s
    by (simp_all add: bucket_in_def Let_def)
  have f: "full_marks_in A (hd h)
         = (if maxScore (hd h) = 0 then num_lit A 100 else Finite (maxScore (hd h)))"
    by (simp add: full_marks_in_def)
  have g: "passThreshold_in A (hd h) = num_mul A (full_marks_in A (hd h)) (num_lit A 0.6)"
    by (simp add: passThreshold_in_def)
  have r: "passRate (stats_in A (hd h) h) =
         num_mul A
           (num_div A
              (Finite (of_nat (length
                 (filter (\<lambda>s. num_ge (Finite (score s)) (passThreshold_in A (hd h))) h))))
              (Finite (of_nat (length h))))
           (num_lit A 100)"
    by (simp add: stats_in_def Let_def)
  have df: "difficulty (stats_in A (hd h) h)
         = num_div A (avgScore (stats_in A (hd h) h)) (full_marks_in A (hd h))"
    by (simp add: stats_in_def Let_def)
  from c have c': "h' \<noteq> [] \<and> map score h' = map score h \<and> maxScore (hd h') = maxScore (hd h) \<longrightarrow>
         avgScore (stats_in A (hd h') h') = avgScore (stats_in A (hd h) h) \<and>
         passRate (stats_in A (hd h') h') = passRate (stats_in A (hd h) h) \<and>
         difficulty (stats_in A (hd h') h') = difficulty (stats_in A (hd h) h)"
    by blast
  from d have d': "\<forall>s s'. score s' = score s \<and> maxScore s' = maxScore s \<longrightarrow>
           bucket_in A s' = bucket_in A s"
    by blast
  from e have e1: "\<forall>s. (bucket_in A s = 0) =
           num_lt (num_div A (Finite (score s)) (Finite (maxScore s))) (num_lit A 0.6)"
    and e2: "\<forall>s. (bucket_in A s = 3) =
           (\<not> num_lt (num_div A (Finite (score s)) (Finite (maxScore s))) (num_lit A 0.6) \<and>
            \<not> num_lt (num_div A (Finite (score s)) (Finite (maxScore s))) (num_lit A 0.75) \<and>
            \<not> num_lt (num_div A (Finite (score s)) (Finite (maxScore s))) (num_lit A 0.9))"
    by blast+
  show ?thesis
    by (rule conjI [OF a], rule conjI [OF f], rule conjI [OF g], rule conjI [OF r],
        rule conjI [OF df], rule conjI [OF c'], rule conjI [OF b], rule conjI [OF d'],
        rule conjI [OF e1], rule e2)
qed

lemma mixed_history_in_doubles:
  "passThreshold_in double_arith (hd mixed_history) = Finite 6"
  "map (\<lambda>k. length (filter (\<lambda>s. bucket_in double_arith s = k) mixed_history)) [0, 1, 2, 3]
     = [0, 0, 2, 1]"
  "length (filter (\<lambda>s. num_ge (Finite (score s)) (Finite 6)) mixed_history) = 2"
  "length mixed_history = 3"
  "num_mul double_arith (num_div double_arith (Finite 2) (Finite 3)) (num_lit double_arith 100)
     = Finite (2345624805922133 / 35184372088832)"
  "mixed_history_other \<noteq> [] \<and> map score mixed_history_other = map score mixed_history \<and>
     maxScore (hd mixed_history_other) = maxScore (hd mixed_history)"
  by code_simp+

text \<open>
  An instance in double arithmetic, with differing full marks.  The threshold is 6, from
  the first entry.  The entry 5 out of 5 fails it, yet its own ratio 1 puts it into the
  top bucket.  The entry 8.1 out of 9 passes it, and its own ratio, the double
  0.8999999999999999, is below the literal 0.9, so it counts as Good.  The pass rate is the
  double 66.66666666666666, and it is the same for the history with other full marks in
  the second and third entry.
\<close>

theorem C10_single_threshold_witness:
  "mixed_history \<noteq> []
   \<and> passThreshold_in double_arith (hd mixed_history) = Finite 6
   \<and> passRate (stats_in double_arith (hd mixed_history) mixed_history)
       = Finite (2345624805922133 / 35184372088832)
   \<and> passRate (stats_in double_arith (hd mixed_history_other) mixed_history_other)
       = Finite (2345624805922133 / 35184372088832)
   \<and> map d_value (distribution (stats_in double_arith (hd mixed_history) mixed_history))
       = [0, 0, 2, 1]"
proof -
  have ne: "mixed_history \<noteq> []" by (simp add: mixed_history_def)
  note t = C10_single_threshold [OF ne, of double_arith mixed_history_other]
  note t_rate = t [THEN conjunct2, THEN conjunct2, THEN conjunct2, THEN conjunct1]
  note t_same = t [THEN conjunct2, THEN conjunct2, THEN conjunct2, THEN conjunct2,
                   THEN conjunct2, THEN conjunct1]
  note t_dist = t [THEN conjunct2, THEN conjunct2, THEN conjunct2, THEN conjunct2,
                   THEN conjunct2, THEN conjunct2, THEN conjunct1]
  have rate: "passRate (stats_in double_arith (hd mixed_history) mixed_history)
       = Finite (2345624805922133 / 35184372088832)"
    using t_rate
    by (simp only: mixed_history_in_doubles(1,3,4,5) of_nat_numeral)
  have other: "passRate (stats_in double_arith (hd mixed_history_other) mixed_history_other)
       = passRate (stats_in double_arith (hd mixed_history) mixed_history)"
    using mp [OF t_same mixed_history_in_doubles(6)] by (elim conjE)
  have dist: "map d_value (distribution (stats_in double_arith (hd mixed_history) mixed_history))
       = [0, 0, 2, 1]"
    using t_dist by (simp only: mixed_history_in_doubles(2))
  show ?thesis
    by (intro conjI ne mixed_history_in_doubles(1) rate dist) (simp only: other rate)
qed

section \<open>Properties of the history store\<close>

text \<open>
  C4. Let the stored history be a list of at most 500 entries.  After \<open>recordHistory\<close>
  the stored history is again a list of at most 500 entries.  When there is a result to
  record and the store accepts the write, the new entry (the result with the submitted
  score and name and a fresh id) is at the front, followed by the old list, from which
  exactly the last (oldest) entry is dropped when the old list already had 500 entries.
\<close>

theorem C4_history_cap:
  assumes "read_history st = Inr xs" and "length xs \<le> 500"
  shows "(\<exists>ys. read_history (recordHistory e now res sc nm st) = Inr ys \<and> length ys \<le> 500)
    \<and> (res = Some r \<and> \<not> quota_exceeded e \<longrightarrow>
         read_history (recordHistory e now res sc nm st) =
           Inr (r\<lparr>score := sc, name := nm, id_str := now\<rparr>
                  # (if length xs < 500 then xs else butlast xs)))"
  using assms
  by (cases res) (auto simp: recordHistory_def read_history_def Let_def)

theorem C4_history_cap_witness:
  "read_history (history_store (replicate 500 (entry 1 10))) = Inr (replicate 500 (entry 1 10))
   \<and> length (replicate 500 (entry 1 10)) \<le> 500
   \<and> read_history (recordHistory \<lparr>env_API_KEY = None, quota_exceeded = False\<rparr> ''1700000000000''
        (Some (entry 7 10)) 9 ''Li'' (history_store (replicate 500 (entry 1 10))))
      = Inr ((entry 7 10)\<lparr>score := 9, name := ''Li'', id_str := ''1700000000000''\<rparr>
               # replicate 499 (entry 1 10))"
proof -
  have rd: "read_history (history_store (replicate 500 (entry 1 10)))
              = Inr (replicate 500 (entry 1 10))"
    by (simp add: read_history_def history_store_def)
  have len: "length (replicate 500 (entry 1 10)) \<le> 500" by simp
  have bl: "butlast (replicate 500 (entry 1 10)) = replicate 499 (entry 1 10)"
    by (simp add: butlast_conv_take)
  from C4_history_cap [OF rd len, of "\<lparr>env_API_KEY = None, quota_exceeded = False\<rparr>"
      "''1700000000000''" "Some (entry 7 10)" 9 "''Li''" "entry 7 10"] rd bl
  show ?thesis by simp
qed

section \<open>Properties of the batch loop\<close>

lemma new_effects_append [simp]: "effects s' = effects s @ xs \<Longrightarrow> new_effects s s' = xs"
  by (simp add: new_effects_def)

lemma handleScanError_running:
  "isBatchRunningRef s \<Longrightarrow>
     handleScanError msg s = s\<lparr>effects := effects s @ [SetTimeout ScanPage 2000]\<rparr>"
  by (simp add: handleScanError_def emit_def)

lemma handleScanError_stopped:
  "\<not> isBatchRunningRef s \<Longrightarrow> handleScanError msg s = s\<lparr>errorMsg := Some msg, status := Error\<rparr>"
  by (simp add: handleScanError_def)

lemma scanPage_running:
  "isBatchRunningRef s \<Longrightarrow> chrome_runtime r \<Longrightarrow> chrome_tabs r \<Longrightarrow>
     scanPage r s = s\<lparr>errorMsg := None, pageContext := None, showEvidence := False,
                       activeBreakdownIndex := None, effects := effects s @ [TabsQuery For_scan]\<rparr>"
  by (simp add: scanPage_def emit_def)

lemma scanPage_stopped:
  "\<not> isBatchRunningRef s \<Longrightarrow> chrome_runtime r \<Longrightarrow> chrome_tabs r \<Longrightarrow>
     scanPage r s = s\<lparr>status := Scanning, scanWaitCount := 0, errorMsg := None,
                       pageContext := None, showEvidence := False,
                       activeBreakdownIndex := None, effects := effects s @ [TabsQuery For_scan]\<rparr>"
  by (simp add: scanPage_def emit_def)

text \<open>
  C2. When the grading call fails while the running flag is set, the continuation clears
  the flag (ref and state), reports the batch-paused error with status error, and adds
  nothing to the effects: no timer for a further scan and no second grading call.
\<close>

theorem C2_grading_failure_halts:
  "isBatchRunningRef s \<Longrightarrow>
     \<not> isBatchRunningRef (startGrading_settled r ctx Rejected s) \<and>
     \<not> isBatchRunning (startGrading_settled r ctx Rejected s) \<and>
     status (startGrading_settled r ctx Rejected s) = Error \<and>
     errorMsg (startGrading_settled r ctx Rejected s) = Some Msg_ai_batch_paused \<and>
     effects (startGrading_settled r ctx Rejected s) = effects s \<and>
     \<not> retry_pending (startGrading_settled r ctx Rejected
                        (startGrading r ctx rubric s))"
  by (simp add: startGrading_settled_def stopBatch_def startGrading_def emit_def
        retry_pending_def)

theorem C2_grading_failure_halts_witness:
  "isBatchRunningRef (running_view ''Wang'') \<and>
   \<not> isBatchRunningRef
       (startGrading_settled batch_render (page_of ''Li'') Rejected (running_view ''Wang'')) \<and>
   effects (startGrading_settled batch_render (page_of ''Li'') Rejected (running_view ''Wang''))
     = []"
proof -
  have run: "isBatchRunningRef (running_view ''Wang'')"
    by (simp add: running_view_def initial_view_def)
  have eff: "effects (running_view ''Wang'') = []"
    by (simp add: running_view_def initial_view_def)
  from C2_grading_failure_halts [OF run, of batch_render "page_of ''Li''"] run eff
  show ?thesis by simp
qed

text \<open>
  C3. A scan that fails (no active tab, a lost connection, a response without success or
  data, or no \<open>chrome.tabs\<close> at all) leaves an error message if and only if the running
  flag is not set.  With the flag set, the status is unchanged and exactly one timer is
  armed, for \<open>scanPage\<close> after 2000 ms; without it, the status becomes error and no timer
  is armed.
\<close>

theorem C3_scan_failure:
  assumes "chrome_runtime r" and "\<not> chrome_tabs r \<or> scan_failed res"
  shows "((errorMsg (scan_attempt r res s) \<noteq> None) = (\<not> isBatchRunningRef s))
    \<and> (isBatchRunningRef s \<longrightarrow>
          status (scan_attempt r res s) = status s \<and>
          isBatchRunningRef (scan_attempt r res s) \<and>
          filter is_timer (new_effects s (scan_attempt r res s)) = [SetTimeout ScanPage 2000])
    \<and> (\<not> isBatchRunningRef s \<longrightarrow>
          status (scan_attempt r res s) = Error \<and>
          filter is_timer (new_effects s (scan_attempt r res s)) = [])"
proof (cases "chrome_tabs r")
  case False
  with assms(1) show ?thesis
    by (simp add: scan_attempt_def scanPage_def handleScanError_def emit_def)
next
  case True
  with assms have f: "scan_failed res" by simp
  show ?thesis
  proof (cases "isBatchRunningRef s")
    case run: True
    from f show ?thesis
      by (cases res rule: scan_failed.cases)
         (auto simp: scan_attempt_def True assms(1) run scanPage_running scanPage_tabs_def
            scanPage_response_def handleScanError_running emit_def)
  next
    case stop: False
    from f show ?thesis
      by (cases res rule: scan_failed.cases)
         (auto simp: scan_attempt_def True assms(1) stop scanPage_stopped scanPage_tabs_def
            scanPage_response_def handleScanError_stopped emit_def)
  qed
qed

theorem C3_scan_failure_witness:
  "chrome_runtime batch_render
   \<and> scan_failed (Replied (Some \<lparr>success = False, data = None, error = Some ''CORS''\<rparr>))
   \<and> errorMsg (scan_attempt batch_render
        (Replied (Some \<lparr>success = False, data = None, error = Some ''CORS''\<rparr>))
        (running_view ''Wang'')) = None
   \<and> filter is_timer (new_effects (running_view ''Wang'') (scan_attempt batch_render
        (Replied (Some \<lparr>success = False, data = None, error = Some ''CORS''\<rparr>))
        (running_view ''Wang''))) = [SetTimeout ScanPage 2000]
   \<and> errorMsg (scan_attempt batch_render
        (Replied (Some \<lparr>success = False, data = None, error = Some ''CORS''\<rparr>))
        (initial_view (history_store []))) \<noteq> None
   \<and> status (scan_attempt batch_render
        (Replied (Some \<lparr>success = False, data = None, error = Some ''CORS''\<rparr>))
        (initial_view (history_store []))) = Error"
proof -
  have c: "chrome_runtime batch_render" by (simp add: batch_render_def)
  have f: "\<not> chrome_tabs batch_render
           \<or> scan_failed (Replied (Some \<lparr>success = False, data = None, error = Some ''CORS''\<rparr>))"
    by simp
  have run: "isBatchRunningRef (running_view ''Wang'')"
    by (simp add: running_view_def initial_view_def)
  have idle: "\<not> isBatchRunningRef (initial_view (history_store []))"
    by (simp add: initial_view_def)
  from C3_scan_failure [OF c f, of "running_view ''Wang''"]
       C3_scan_failure [OF c f, of "initial_view (history_store [])"] c run idle
  show ?thesis by simp
qed

lemma same_student_attempt:
  assumes "chrome_runtime r" "chrome_tabs r" "isBatchRunningRef s"
    and "lastGradedNameRef s = Some (studentName d)"
  shows "scan_attempt r (page_data d) s =
     s\<lparr>errorMsg := None, pageContext := None, showEvidence := False,
       activeBreakdownIndex := None, scanWaitCount := scanWaitCount s + 1,
       effects := effects s @ [TabsQuery For_scan, SendMessage REQUEST_PAGE_DATA,
                               SetTimeout ScanPage 1500]\<rparr>"
  using assms
  by (simp add: scan_attempt_def page_data_def scanPage_running scanPage_tabs_def
        scanPage_response_def emit_def)

lemma new_student_attempt:
  assumes "chrome_runtime r" "chrome_tabs r" "isBatchRunningRef s"
    and "lastGradedNameRef s \<noteq> Some (studentName d)"
  shows "scan_attempt r (page_data d) s =
     handlePageData r d
       (s\<lparr>errorMsg := None, pageContext := None, showEvidence := False,
          activeBreakdownIndex := None,
          effects := effects s @ [TabsQuery For_scan, SendMessage REQUEST_PAGE_DATA],
          scanWaitCount := 0\<rparr>)"
  using assms
  by (simp add: scan_attempt_def page_data_def scanPage_running scanPage_tabs_def
        scanPage_response_def emit_def)

lemma retry_pending_snoc [simp]:
  "effects s = xs @ [x] \<Longrightarrow>
     retry_pending s = (case x of SetTimeout ScanPage d \<Rightarrow> True | _ \<Rightarrow> False)"
  by (simp add: retry_pending_def split: effect.splits task.splits)

lemma handlePageData_facts:
  "pageContext (handlePageData r d s) = Some d"
  "scanWaitCount (handlePageData r d s) = scanWaitCount s"
  "\<not> retry_pending (handlePageData r d s)"
  by (simp_all add: handlePageData_def startGrading_def stopBatch_def emit_def Let_def)

lemma handlePageData_effects:
  "\<exists>x. effects (handlePageData r d s) = effects s @ [x] \<and> \<not> is_timer x
        \<and> x \<noteq> SendMessage REQUEST_PAGE_DATA"
  by (simp add: handlePageData_def startGrading_def stopBatch_def emit_def Let_def)

lemma handlePageData_ready:
  "isRubricConfigured r \<Longrightarrow> currentRubric r \<noteq> [] \<Longrightarrow>
     handlePageData r d s =
       s\<lparr>pageContext := Some d, status := Grading,
         effects := effects s @ [AssessCall (answerImageBase64 d) (Rubric (currentRubric r))
                                   (gradingStrategy r)]\<rparr>"
  by (simp add: handlePageData_def startGrading_def emit_def)

lemma poll_waits:
  assumes "chrome_runtime r" "chrome_tabs r" "isBatchRunningRef s"
    and "lastGradedNameRef s = Some n" and "\<forall>d\<in>set ds. studentName d = n"
  shows "\<exists>s'. poll r (map page_data ds @ later) s = poll r later s'
           \<and> isBatchRunningRef s' \<and> lastGradedNameRef s' = Some n
           \<and> scanWaitCount s' = scanWaitCount s + length ds
           \<and> effects s' = effects s @ concat (replicate (length ds) wait_round)"
  using assms(3-5)
proof (induction ds arbitrary: s)
  case Nil
  then show ?case by (intro exI [of _ s]) simp
next
  case (Cons d ds)
  let ?s1 = "scan_attempt r (page_data d) s"
  have last: "lastGradedNameRef s = Some (studentName d)" using Cons.prems by simp
  have s1: "?s1 = s\<lparr>errorMsg := None, pageContext := None, showEvidence := False,
       activeBreakdownIndex := None, scanWaitCount := scanWaitCount s + 1,
       effects := effects s @ wait_round\<rparr>"
    unfolding wait_round_def
    by (rule same_student_attempt [OF assms(1,2) Cons.prems(1) last])
  have pend: "retry_pending ?s1"
    by (simp add: s1 retry_pending_def wait_round_def)
  have step: "poll r (map page_data (d # ds) @ later) s = poll r (map page_data ds @ later) ?s1"
    using pend by (simp add: Let_def)
  have "isBatchRunningRef ?s1" "lastGradedNameRef ?s1 = Some n" "\<forall>d\<in>set ds. studentName d = n"
    using Cons.prems by (simp_all add: s1)
  from Cons.IH [OF this] obtain s' where
    "poll r (map page_data ds @ later) ?s1 = poll r later s'"
    "isBatchRunningRef s'" "lastGradedNameRef s' = Some n"
    "scanWaitCount s' = scanWaitCount ?s1 + length ds"
    "effects s' = effects ?s1 @ concat (replicate (length ds) wait_round)"
    by blast
  then show ?case
    using step by (intro exI [of _ s']) (simp add: s1)
qed

lemma poll_new_student:
  assumes "chrome_runtime r" "chrome_tabs r" "isBatchRunningRef s"
    and "lastGradedNameRef s \<noteq> Some (studentName d)"
  shows "poll r (page_data d # later) s = scan_attempt r (page_data d) s"
  by (simp add: Let_def new_student_attempt [OF assms] handlePageData_facts)

lemma poll_ignores_rest:
  assumes "chrome_runtime r" "chrome_tabs r" "isBatchRunningRef s"
    and "lastGradedNameRef s = Some n" and "\<forall>d\<in>set ds. studentName d = n"
    and "studentName d' \<noteq> n"
  shows "poll r (map page_data ds @ page_data d' # later) s
           = poll r (map page_data ds @ [page_data d']) s"
proof -
  obtain s1 where s1: "poll r (map page_data ds @ page_data d' # later) s
        = poll r (page_data d' # later) s1"
      "isBatchRunningRef s1" "lastGradedNameRef s1 = Some n"
    using poll_waits [OF assms(1-5), of "page_data d' # later"] by blast
  have "\<exists>s'. poll r (map page_data ds @ later') s = poll r later' s'
           \<and> isBatchRunningRef s' \<and> lastGradedNameRef s' = Some n" for later'
    using poll_waits [OF assms(1-5), of later'] by blast
  show ?thesis
    using assms(3-6)
  proof (induction ds arbitrary: s)
    case Nil
    then have "lastGradedNameRef s \<noteq> Some (studentName d')" by auto
    from poll_new_student [OF assms(1,2) Nil(1) this] show ?case by simp
  next
    case (Cons d ds)
    let ?s1 = "scan_attempt r (page_data d) s"
    have last: "lastGradedNameRef s = Some (studentName d)" using Cons.prems by simp
    note s1 = same_student_attempt [OF assms(1,2) Cons.prems(1) last]
    have pend: "retry_pending ?s1" by (simp add: s1 retry_pending_def)
    have "isBatchRunningRef ?s1" "lastGradedNameRef ?s1 = Some n"
      "\<forall>d\<in>set ds. studentName d = n" "studentName d' \<noteq> n"
      using Cons.prems by (simp_all add: s1)
    from Cons.IH [OF this] pend show ?case by (simp add: Let_def)
  qed
qed

lemma timers_of_rounds:
  "filter is_timer (concat (replicate k wait_round)) = replicate k (SetTimeout ScanPage 1500)"
  by (induction k) (simp_all add: wait_round_def)

lemma requests_of_rounds:
  "length (filter (\<lambda>x. x = SendMessage REQUEST_PAGE_DATA) (concat (replicate k wait_round))) = k"
  by (induction k) (simp_all add: wait_round_def)

text \<open>
  C1. Let the loop run with \<open>n\<close> as the name graded last, and let the page adapter
  answer with pages of the student \<open>n\<close> for the scans \<open>ds\<close> and then with a page \<open>d'\<close> of
  another student.  Then after \<open>k\<close> of the repeated answers the wait counter has grown by
  \<open>k\<close>; over the whole sequence exactly \<open>length ds\<close> timers are armed, each for \<open>scanPage\<close>
  after 1500 ms, and the page is asked \<open>length ds + 1\<close> times; when the new student
  arrives the wait counter is 0 and the new page is the page context; no further scan
  result is consumed; and with a rubric configured the status is grading and the last
  effect is the grading call on the new page, with the flag still set.
\<close>

theorem C1_retries_until_new_student:
  assumes "chrome_runtime r" and "chrome_tabs r" and "isBatchRunningRef s"
    and "lastGradedNameRef s = Some n"
    and "\<forall>d\<in>set ds. studentName d = n" and "studentName d' \<noteq> n"
  shows "(\<forall>k\<le>length ds.
            scanWaitCount (poll r (map page_data (take k ds)) s) = scanWaitCount s + k)
    \<and> filter is_timer (new_effects s (poll r (map page_data ds @ page_data d' # later) s))
        = replicate (length ds) (SetTimeout ScanPage 1500)
    \<and> length (filter (\<lambda>x. x = SendMessage REQUEST_PAGE_DATA)
        (new_effects s (poll r (map page_data ds @ page_data d' # later) s))) = length ds + 1
    \<and> scanWaitCount (poll r (map page_data ds @ page_data d' # later) s) = 0
    \<and> pageContext (poll r (map page_data ds @ page_data d' # later) s) = Some d'
    \<and> poll r (map page_data ds @ page_data d' # later) s
        = poll r (map page_data ds @ [page_data d']) s
    \<and> (isRubricConfigured r \<and> currentRubric r \<noteq> [] \<longrightarrow>
         status (poll r (map page_data ds @ page_data d' # later) s) = Grading \<and>
         isBatchRunningRef (poll r (map page_data ds @ page_data d' # later) s) \<and>
         last (effects (poll r (map page_data ds @ page_data d' # later) s))
           = AssessCall (answerImageBase64 d') (Rubric (currentRubric r)) (gradingStrategy r))"
proof -
  have counter: "scanWaitCount (poll r (map page_data (take k ds)) s) = scanWaitCount s + k"
    if "k \<le> length ds" for k
  proof -
    have "\<forall>d\<in>set (take k ds). studentName d = n"
      using assms(5) by (meson in_set_takeD)
    from poll_waits [OF assms(1-4) this, of "[]"] that show ?thesis by auto
  qed
  have final: "poll r (map page_data ds @ page_data d' # xs) s =
      handlePageData r d'
        (s'\<lparr>errorMsg := None, pageContext := None, showEvidence := False,
            activeBreakdownIndex := None,
            effects := effects s' @ [TabsQuery For_scan, SendMessage REQUEST_PAGE_DATA],
            scanWaitCount := 0\<rparr>)
      \<and> isBatchRunningRef s' \<and> effects s' = effects s @ concat (replicate (length ds) wait_round)"
    if "poll r (map page_data ds @ page_data d' # xs) s = poll r (page_data d' # xs) s'"
      "isBatchRunningRef s'" "lastGradedNameRef s' = Some n"
      "effects s' = effects s @ concat (replicate (length ds) wait_round)" for xs s'
  proof -
    have neq: "lastGradedNameRef s' \<noteq> Some (studentName d')"
      using that(3) assms(6) by auto
    show ?thesis
      using that
      by (simp add: new_student_attempt [OF assms(1,2) that(2) neq] handlePageData_facts Let_def)
  qed
  obtain s1 where s1: "poll r (map page_data ds @ page_data d' # later) s = poll r (page_data d' # later) s1"
      "isBatchRunningRef s1" "lastGradedNameRef s1 = Some n"
      "effects s1 = effects s @ concat (replicate (length ds) wait_round)"
    using poll_waits [OF assms(1-5), of "page_data d' # later"] by blast
  from final [OF s1] have f1:
    "poll r (map page_data ds @ page_data d' # later) s =
      handlePageData r d'
        (s1\<lparr>errorMsg := None, pageContext := None, showEvidence := False,
            activeBreakdownIndex := None,
            effects := effects s1 @ [TabsQuery For_scan, SendMessage REQUEST_PAGE_DATA],
            scanWaitCount := 0\<rparr>)"
    by simp
  obtain x where x:
    "effects (poll r (map page_data ds @ page_data d' # later) s)
       = effects s @ concat (replicate (length ds) wait_round)
           @ [TabsQuery For_scan, SendMessage REQUEST_PAGE_DATA, x]"
    "\<not> is_timer x" "x \<noteq> SendMessage REQUEST_PAGE_DATA"
    using handlePageData_effects [of r d'
        "s1\<lparr>errorMsg := None, pageContext := None, showEvidence := False,
            activeBreakdownIndex := None,
            effects := effects s1 @ [TabsQuery For_scan, SendMessage REQUEST_PAGE_DATA],
            scanWaitCount := 0\<rparr>"]
    by (auto simp: f1 s1(4))
  have new: "new_effects s (poll r (map page_data ds @ page_data d' # later) s)
       = concat (replicate (length ds) wait_round)
           @ [TabsQuery For_scan, SendMessage REQUEST_PAGE_DATA, x]"
    by (simp add: new_effects_def x(1))
  have timers: "filter is_timer (new_effects s (poll r (map page_data ds @ page_data d' # later) s))
        = replicate (length ds) (SetTimeout ScanPage 1500)"
    by (simp add: new x(2) timers_of_rounds)
  have asks: "length (filter (\<lambda>x. x = SendMessage REQUEST_PAGE_DATA)
        (new_effects s (poll r (map page_data ds @ page_data d' # later) s))) = length ds + 1"
    by (simp add: new x(3) requests_of_rounds)
  have same: "poll r (map page_data ds @ page_data d' # later) s
        = poll r (map page_data ds @ [page_data d']) s"
    by (rule poll_ignores_rest [OF assms])
  have ready: "status (poll r (map page_data ds @ page_data d' # later) s) = Grading \<and>
         isBatchRunningRef (poll r (map page_data ds @ page_data d' # later) s) \<and>
         last (effects (poll r (map page_data ds @ page_data d' # later) s))
           = AssessCall (answerImageBase64 d') (Rubric (currentRubric r)) (gradingStrategy r)"
    if "isRubricConfigured r" "currentRubric r \<noteq> []"
    by (simp add: f1 handlePageData_ready [OF that] s1(2))
  have zero: "scanWaitCount (poll r (map page_data ds @ page_data d' # later) s) = 0"
    by (simp add: f1 handlePageData_facts)
  have ctx: "pageContext (poll r (map page_data ds @ page_data d' # later) s) = Some d'"
    by (simp add: f1 handlePageData_facts)
  from counter have c: "\<forall>k\<le>length ds.
      scanWaitCount (poll r (map page_data (take k ds)) s) = scanWaitCount s + k"
    by blast
  from ready have rd: "isRubricConfigured r \<and> currentRubric r \<noteq> [] \<longrightarrow>
         status (poll r (map page_data ds @ page_data d' # later) s) = Grading \<and>
         isBatchRunningRef (poll r (map page_data ds @ page_data d' # later) s) \<and>
         last (effects (poll r (map page_data ds @ page_data d' # later) s))
           = AssessCall (answerImageBase64 d') (Rubric (currentRubric r)) (gradingStrategy r)"
    by blast
  show ?thesis
    by (intro conjI c timers asks zero ctx same rd)
qed

theorem C1_retries_until_new_student_witness:
  "chrome_runtime batch_render \<and> chrome_tabs batch_render
   \<and> isBatchRunningRef (running_view ''Wang'')
   \<and> lastGradedNameRef (running_view ''Wang'') = Some ''Wang''
   \<and> map studentName waiting_pages = [''Wang'', ''Wang'', ''Wang'']
   \<and> studentName (page_of ''Li'') \<noteq> ''Wang''
   \<and> length waiting_pages = 3
   \<and> filter is_timer (new_effects (running_view ''Wang'')
         (poll batch_render
            (map page_data waiting_pages @ page_data (page_of ''Li'') # [page_data (page_of ''Zhao'')])
            (running_view ''Wang'')))
       = replicate (length waiting_pages) (SetTimeout ScanPage 1500)
   \<and> scanWaitCount (poll batch_render
            (map page_data waiting_pages @ page_data (page_of ''Li'') # [page_data (page_of ''Zhao'')])
            (running_view ''Wang'')) = 0
   \<and> status (poll batch_render
            (map page_data waiting_pages @ page_data (page_of ''Li'') # [page_data (page_of ''Zhao'')])
            (running_view ''Wang'')) = Grading"
proof -
  have a: "chrome_runtime batch_render" "chrome_tabs batch_render"
    by (simp_all add: batch_render_def)
  have b: "isBatchRunningRef (running_view ''Wang'')"
    "lastGradedNameRef (running_view ''Wang'') = Some ''Wang''"
    by (simp_all add: running_view_def initial_view_def)
  have c: "\<forall>d\<in>set waiting_pages. studentName d = ''Wang''"
    "studentName (page_of ''Li'') \<noteq> ''Wang''"
    by (simp_all add: page_of_def waiting_pages_def)
  have d: "isRubricConfigured batch_render \<and> currentRubric batch_render \<noteq> []"
    by (simp add: batch_render_def)
  have e: "length waiting_pages = 3"
    "map studentName waiting_pages = [''Wang'', ''Wang'', ''Wang'']"
    by (simp_all add: waiting_pages_def page_of_def)
  from C1_retries_until_new_student [OF a b c, of "[page_data (page_of ''Zhao'')]"] d
  have "filter is_timer (new_effects (running_view ''Wang'')
         (poll batch_render
            (map page_data waiting_pages @ page_data (page_of ''Li'') # [page_data (page_of ''Zhao'')])
            (running_view ''Wang'')))
       = replicate (length waiting_pages) (SetTimeout ScanPage 1500)
   \<and> scanWaitCount (poll batch_render
            (map page_data waiting_pages @ page_data (page_of ''Li'') # [page_data (page_of ''Zhao'')])
            (running_view ''Wang'')) = 0
   \<and> status (poll batch_render
            (map page_data waiting_pages @ page_data (page_of ''Li'') # [page_data (page_of ''Zhao'')])
            (running_view ''Wang'')) = Grading"
    by blast
  with a b c(2) e show ?thesis by blast
qed

section \<open>Stopping the batch loop\<close>

text \<open>
  With the running flag cleared, the scan and grade continuations arm no timer and leave
  the batch count and the flag as they are; \<open>handleSubmitScore\<close> then arms no scan and
  does not count.
\<close>

lemma stopped_callbacks_arm_nothing:
  assumes "\<not> isBatchRunningRef s"
  shows "filter is_timer (new_effects s (scanPage_response r lastError response s)) = []"
    and "filter is_timer (new_effects s (scanPage_tabs r tab s)) = []"
    and "filter is_timer (new_effects s (startGrading_settled r ctx out s)) = []"
    and "filter is_timer (new_effects s (handleSubmitScore r e now sc nm s)) = []"
    and "batchCount (scanPage_response r lastError response s) = batchCount s"
    and "batchCount (startGrading_settled r ctx out s) = batchCount s"
    and "batchCount (handleSubmitScore r e now sc nm s) = batchCount s"
    and "\<not> isBatchRunningRef (scanPage_response r lastError response s)"
    and "\<not> isBatchRunningRef (startGrading_settled r ctx out s)"
    and "\<not> isBatchRunningRef (handleSubmitScore r e now sc nm s)"
  using assms
  by (auto simp: scanPage_response_def scanPage_tabs_def startGrading_settled_def
        handleSubmitScore_def handleScanError_def handlePageData_def startGrading_def
        stopBatch_def emit_def new_effects_def Let_def
      split: option.splits outcome.splits)

lemma graded_Li_effects:
  "effects graded_Li = [SetTimeout (SubmitScore 9 ''Li'') 800]"
  "isBatchRunningRef graded_Li"
  "store graded_Li = history_store []"
  "batchCount graded_Li = 1"
  by (simp_all add: graded_Li_def startGrading_settled_def batch_render_def page_of_def
        running_view_def initial_view_def entry_def emit_def)

text \<open>
  C6, the code at the stop during the submission delay.  The grading of student Li
  resolved while the flag was set and armed the 800 ms timer; the operator stopped the
  batch; the timer fired.  With the flag cleared, \<open>handleSubmitScore\<close> still queries the
  tab and sends \<open>FILL_SCORE\<close> with the score 9, and still records the history entry; only
  the batch count and the next scan are held back.
\<close>

theorem C6_submit_timer_ignores_stop:
  "\<not> isBatchRunningRef stopped_Li
   \<and> effects stopped_Li = [SetTimeout (SubmitScore 9 ''Li'') 800]
   \<and> \<not> isBatchRunningRef submitted_Li
   \<and> new_effects stopped_Li submitted_Li
        = [TabsQuery (For_fill 9 ''ZHIXUE''), SendMessage (FILL_SCORE 9 ''ZHIXUE'')]
   \<and> read_history (store stopped_Li) = Inr []
   \<and> read_history (store submitted_Li)
        = Inr [(entry 7 10)\<lparr>score := 9, name := ''Li'', id_str := ''1700000000800''\<rparr>]
   \<and> batchCount submitted_Li = batchCount stopped_Li"
  by (simp add: submitted_Li_def stopped_Li_def graded_Li_effects stopBatch_def
        handleSubmitScore_def handleSubmitScore_tabs_def batch_render_def page_of_def
        recordHistory_def read_history_def history_store_def emit_def new_effects_def)

section \<open>Properties of the page adapter\<close>

lemma select_input_none:
  "\<forall>sel\<in>set sels. querySelector p sel = None \<Longrightarrow> select_input p sels None = None"
  by (induction sels) simp_all

text \<open>
  When no selector matches any element at all, \<open>tryFillScore\<close> does fall back to the
  focused input.
\<close>

lemma tryFillScore_fallback_no_match:
  assumes "\<forall>sel. querySelector p sel = None"
    and "activeElement p = Some a" and "tagName a = ''INPUT''"
  shows "tryFillScore sc hint p =
     \<lparr>fill_success = True, fill_error = None, fill_target = Some a, fill_value = Some sc,
      dispatched = [Ev_input, Ev_change, Ev_blur, Ev_keydown_Enter]\<rparr>"
proof -
  have "select_input p (xs @ SCORE_INPUT_GENERIC) None = None" for xs
    by (rule select_input_none) (simp add: assms(1))
  then show ?thesis
    by (simp add: tryFillScore_def Let_def assms(2,3))
qed

lemma select_input_hidden_match_page:
  "select_input hidden_match_page
     (the (SCORE_INPUT_CONFIGS ''ZHIXUE'') @ SCORE_INPUT_GENERIC) None = Some hidden_input"
  by (simp add: SCORE_INPUT_CONFIGS_def SCORE_INPUT_GENERIC_def hidden_match_page_def
        hidden_input_def)

text \<open>
  C8, the code on a page where no selector matches a visible element but the last generic
  selector matches a hidden input, while another, visible input has the focus: every
  selector's match is absent or not rendered, yet \<open>tryFillScore\<close> sets the value of the
  hidden input, dispatches the four events on it and reports success; the focused input
  is not used.
\<close>

theorem C8_hidden_match_blocks_fallback:
  "list_all (\<lambda>sel. case querySelector hidden_match_page sel of
                      None \<Rightarrow> True | Some el \<Rightarrow> offsetParent_null el)
      (the (SCORE_INPUT_CONFIGS ''ZHIXUE'') @ SCORE_INPUT_GENERIC)
   \<and> activeElement hidden_match_page = Some focused_input
   \<and> tagName focused_input = ''INPUT''
   \<and> tryFillScore 9 (Some ''ZHIXUE'') hidden_match_page =
       \<lparr>fill_success = True, fill_error = None, fill_target = Some hidden_input,
        fill_value = Some 9, dispatched = [Ev_input, Ev_change, Ev_blur, Ev_keydown_Enter]\<rparr>
   \<and> fill_target (tryFillScore 9 (Some ''ZHIXUE'') hidden_match_page) \<noteq> Some focused_input"
proof -
  have cfg: "(case SCORE_INPUT_CONFIGS ''ZHIXUE'' of None \<Rightarrow> [] | Some l \<Rightarrow> l)
               = the (SCORE_INPUT_CONFIGS ''ZHIXUE'')"
    by (simp add: SCORE_INPUT_CONFIGS_def)
  have tag: "tagName hidden_input = ''INPUT''" by (simp add: hidden_input_def)
  have fill: "tryFillScore 9 (Some ''ZHIXUE'') hidden_match_page =
       \<lparr>fill_success = True, fill_error = None, fill_target = Some hidden_input,
        fill_value = Some 9, dispatched = [Ev_input, Ev_change, Ev_blur, Ev_keydown_Enter]\<rparr>"
    by (simp add: tryFillScore_def Let_def cfg select_input_hidden_match_page tag)
  have hidden: "list_all (\<lambda>sel. case querySelector hidden_match_page sel of
                      None \<Rightarrow> True | Some el \<Rightarrow> offsetParent_null el)
      (the (SCORE_INPUT_CONFIGS ''ZHIXUE'') @ SCORE_INPUT_GENERIC)"
    by (simp add: SCORE_INPUT_CONFIGS_def SCORE_INPUT_GENERIC_def hidden_match_page_def
          hidden_input_def)
  have "activeElement hidden_match_page = Some focused_input"
    "tagName focused_input = ''INPUT''" "hidden_input \<noteq> focused_input"
    by (simp_all add: hidden_match_page_def focused_input_def hidden_input_def)
  with fill hidden show ?thesis by simp
qed

end
